theory Spec2Isabelle
  imports Main
begin

section \<open>String primitives of the host language\<close>

text \<open>
  The scraper is JavaScript. Its strings are modelled as \<^typ>\<open>string\<close> (lists of 8-bit
  characters, so the Latin-1 range; code points above it are outside the model). The
  methods the source calls on strings are written out below, each named after the
  method it stands for, with the receiver as the last argument.
\<close>

fun startsWith :: "string \<Rightarrow> string \<Rightarrow> bool" where
  "startsWith [] s = True"
| "startsWith (p # ps) [] = False"
| "startsWith (p # ps) (c # cs) = (p = c \<and> startsWith ps cs)"

fun includesStr :: "string \<Rightarrow> string \<Rightarrow> bool" where
  "includesStr n [] = (n = [])"
| "includesStr n (c # cs) = (startsWith n (c # cs) \<or> includesStr n cs)"

definition isWhite :: "char \<Rightarrow> bool" where
  \<comment> \<open>white space and line terminators that \<open>trim\<close> strips: TAB, LF, VT, FF, CR, SP, NBSP\<close>
  "isWhite c \<longleftrightarrow> c \<in> set [CHR 0x09, CHR 0x0A, CHR 0x0B, CHR 0x0C, CHR 0x0D, CHR 0x20, CHR 0xA0]"

definition trim :: "string \<Rightarrow> string" where
  "trim s = rev (dropWhile isWhite (rev (dropWhile isWhite s)))"

definition isDigit :: "char \<Rightarrow> bool" where
  \<comment> \<open>the class \<open>\d\<close>\<close>
  "isDigit c \<longleftrightarrow> c \<in> set ''0123456789''"

definition isLineTerminator :: "char \<Rightarrow> bool" where
  \<comment> \<open>what \<open>.\<close> refuses to match\<close>
  "isLineTerminator c \<longleftrightarrow> c = CHR 0x0A \<or> c = CHR 0x0D"

definition lowerChar :: "char \<Rightarrow> char" where
  \<comment> \<open>case folding of the \<open>i\<close> flag, on the ASCII letters\<close>
  "lowerChar c =
     (case map_of (zip ''ABCDEFGHIJKLMNOPQRSTUVWXYZ'' ''abcdefghijklmnopqrstuvwxyz'') c of
        Some l \<Rightarrow> l
      | None \<Rightarrow> c)"

text \<open>
  A regular expression without anchors is searched at every start position, leftmost
  first; \<open>searchAt m\<close> says whether the matcher \<open>m\<close> succeeds at some suffix.
\<close>

fun searchAt :: "(string \<Rightarrow> bool) \<Rightarrow> string \<Rightarrow> bool" where
  "searchAt m [] = m []"
| "searchAt m (c # cs) = (m (c # cs) \<or> searchAt m cs)"

fun matchClasses :: "(char \<Rightarrow> bool) list \<Rightarrow> string \<Rightarrow> bool" where
  "matchClasses [] s = True"
| "matchClasses (p # ps) [] = False"
| "matchClasses (p # ps) (c # cs) = (p c \<and> matchClasses ps cs)"

section \<open>URL classification\<close>

definition isSlash :: "char \<Rightarrow> bool" where
  "isSlash c \<longleftrightarrow> c = CHR ''/''"

definition datePathRegex :: "string \<Rightarrow> bool" where
  \<comment> \<open>\<open>absoluteUrl.match(/\d{4}\/\d{2}\/\d{2}/)\<close> is not null\<close>
  "datePathRegex =
     searchAt (matchClasses [isDigit, isDigit, isDigit, isDigit, isSlash,
                             isDigit, isDigit, isSlash, isDigit, isDigit])"

definition looksLikeArticle :: "string \<Rightarrow> bool" where
  \<comment> \<open>the condition under which a resolved link is added to \<open>articleLinks\<close>\<close>
  "looksLikeArticle absoluteUrl \<longleftrightarrow>
     includesStr ''/news/'' absoluteUrl \<or>
     includesStr ''/article/'' absoluteUrl \<or>
     includesStr ''/story/'' absoluteUrl \<or>
     datePathRegex absoluteUrl"

definition imageExtensions :: "string list" where
  "imageExtensions = [''jpg'', ''jpeg'', ''png'', ''gif'', ''webp'']"

definition queryTail :: "string \<Rightarrow> bool" where
  \<comment> \<open>\<open>(\?.*)?$\<close>: nothing, or a question mark and no line terminator up to the end\<close>
  "queryTail q \<longleftrightarrow>
     (case q of [] \<Rightarrow> True | c # r \<Rightarrow> c = CHR ''?'' \<and> \<not> list_ex isLineTerminator r)"

definition imageExtAt :: "string \<Rightarrow> bool" where
  \<comment> \<open>\<open>\.(jpg|jpeg|png|gif|webp)(\?.*)?$\<close> with flag \<open>i\<close>, tried at the start of \<open>t\<close>\<close>
  "imageExtAt t \<longleftrightarrow>
     list_ex (\<lambda>ext. map lowerChar (take (Suc (length ext)) t) = CHR ''.'' # ext
                    \<and> queryTail (drop (Suc (length ext)) t)) imageExtensions"

definition imageRegex :: "string \<Rightarrow> bool" where
  \<comment> \<open>\<open>absoluteUrl.match(/\.(jpg|jpeg|png|gif|webp)(\?.*)?$/i)\<close> is not null\<close>
  "imageRegex = searchAt imageExtAt"

section \<open>Parsed documents\<close>

text \<open>
  The HTML parser and selector engine are a library. A loaded document is modelled by
  what the source asks of it: the call \<open>$(selector)\<close> returns the matched elements in
  document order. An element carries its text, its attributes and the anchors below it
  (the result of \<open>find('a')\<close>).
\<close>

datatype element =
  Element (elText: string) (elAttrs: "(string \<times> string) list") (elAnchors: "element list")

type_synonym cheerio = "string \<Rightarrow> element list"

definition attr :: "string \<Rightarrow> element \<Rightarrow> string option" where
  \<comment> \<open>\<open>undefined\<close> is \<open>None\<close>\<close>
  "attr name el = map_of (elAttrs el) name"

definition firstText :: "element list \<Rightarrow> string" where
  \<comment> \<open>\<open>.first().text()\<close>, the empty string on an empty selection\<close>
  "firstText els = (case els of [] \<Rightarrow> [] | el # _ \<Rightarrow> elText el)"

text \<open>
  \<open>new URL(relative, base).href\<close> is the platform's resolver: \<open>None\<close> when it throws.
\<close>

type_synonym resolver = "string \<Rightarrow> string \<Rightarrow> string option"

definition toAbsolute :: "resolver \<Rightarrow> string \<Rightarrow> string \<Rightarrow> string option" where
  \<comment> \<open>\<open>href.startsWith('http') ? href : new URL(href, url).href\<close>\<close>
  "toAbsolute resolve base href =
     (if startsWith ''http'' href then Some href else resolve href base)"

section \<open>Selector registry\<close>

record selector_profile =
  articleSels :: "string list"
  titleSels :: "string list"
  authorSels :: "string list"
  dateSels :: "string list"
  imageSels :: "string list"

definition abs_cbn_profile :: selector_profile where
  \<open>abs_cbn_profile = \<lparr>
     articleSels = [''.news-item'', ''.article-item'', ''.news-card'', ''.story-card'',
       ''article'', ''.news-list-item'', ''.news-list__item'', ''.news-list__article'',
       ''.news-list__card'', ''.news-list__story'', ''.news-list__content'',
       ''.news-list__wrapper'', ''.news-list__container'', ''.news-list__grid'',
       ''.news-list__row'', ''.news-list__col'', ''.news-list__box'', ''.news-list__panel'',
       ''.news-list__block'', ''.news-list__section''],
     titleSels = [''.news-title'', ''.article-title'', ''.story-title'', ''h2'', ''h3'', ''h1'',
       ''.news-list__title'', ''.news-list__headline'', ''.news-list__heading'',
       ''.news-list__name'', ''.news-list__label'', ''.news-list__text'',
       ''.news-list__content h1'', ''.news-list__content h2'', ''.news-list__content h3'',
       ''.news-list__content h4'', ''.news-list__content h5'', ''.news-list__content h6''],
     authorSels = [''.author'', ''.byline'', ''.writer'', ''.article-author'',
       ''span[itemprop="author"]'', ''span.author'', ''div.author'',
       ''meta[name="author"]'', ''meta[property="article:author"]'',
       ''.news-list__author'', ''.news-list__byline'', ''.news-list__writer'',
       ''.news-list__contributor'', ''.news-list__reporter'', ''.news-list__journalist''],
     dateSels = [''.date'', ''.timestamp'', ''.article-date'', ''.publish-date'', ''time'',
       ''span[itemprop="datePublished"]'', ''span.date'',
       ''meta[name="pubdate"]'', ''meta[property="article:published_time"]'',
       ''.news-list__date'', ''.news-list__time'', ''.news-list__timestamp'',
       ''.news-list__published'', ''.news-list__posted'', ''.news-list__updated''],
     imageSels = [''img.news-image'', ''img.article-image'', ''img.story-image'',
       ''.news-image img'', ''.article-image img'', ''.story-image img'',
       ''.news-list__image img'', ''.news-list__photo img'', ''.news-list__thumbnail img'',
       ''.news-list__media img'', ''.news-list__picture img'',
       ''.news-list__illustration img'', ''.news-list__graphic img'',
       ''.news-list__banner img'', ''.news-list__cover img'']
   \<rparr>\<close>

definition default_profile :: selector_profile where
  \<open>default_profile = \<lparr>
     articleSels = [''article'', ''.article'', ''.post'', ''.news-item'', ''.story'',
       ''.news-story'', ''.news-article'', ''.content'', ''.main-content''],
     titleSels = [''h1'', ''h2'', ''.title'', ''.headline'', ''.story-title'',
       ''.article-title'', ''h3''],
     authorSels = [''.author'', ''.byline'', ''.writer'', ''.author-name'', ''.article-author'',
       ''.contributor'', ''span[itemprop="author"]'', ''span.author'', ''div.author'',
       ''meta[name="author"]'', ''meta[property="article:author"]''],
     dateSels = [''.date'', ''.published'', ''.timestamp'', ''time'', ''.article-date'',
       ''.publish-date'', ''.posted-on'', ''span[itemprop="datePublished"]'', ''span.date'',
       ''meta[name="pubdate"]'', ''meta[property="article:published_time"]''],
     imageSels = [''img.featured-image'', ''img.article-image'', ''img.news-image'',
       ''.featured-image img'', ''.article-image img'', ''.news-image img'',
       ''img[src*="news"]'', ''img[src*="article"]'']
   \<rparr>\<close>

text \<open>
  \<open>websiteSelectors\<close> is an object literal, so reading a property of it by an arbitrary
  key also finds what the object inherits from \<open>Object.prototype\<close>. A property read
  yields a profile, an inherited member (a function or the prototype object itself,
  all of them truthy and none with an \<open>article\<close> property), or \<open>undefined\<close>.
\<close>

datatype js_value = Undefined | ProfileObject selector_profile | PrototypeMember string

definition objectPrototypeKeys :: "string list" where
  "objectPrototypeKeys = [''constructor'', ''__proto__'', ''hasOwnProperty'',
     ''isPrototypeOf'', ''propertyIsEnumerable'', ''toString'', ''toLocaleString'',
     ''valueOf'', ''__defineGetter__'', ''__defineSetter__'', ''__lookupGetter__'',
     ''__lookupSetter__'']"

definition websiteSelectors :: "string \<Rightarrow> js_value" where
  \<comment> \<open>the property read \<open>websiteSelectors[key]\<close>\<close>
  "websiteSelectors key =
     (if key = ''abs-cbn.com'' then ProfileObject abs_cbn_profile
      else if key = ''default'' then ProfileObject default_profile
      else if key \<in> set objectPrototypeKeys then PrototypeMember key
      else Undefined)"

definition selectorsFor :: "string \<Rightarrow> js_value" where
  \<comment> \<open>\<open>websiteSelectors[hostname] || websiteSelectors.default\<close>\<close>
  "selectorsFor hostname =
     (case websiteSelectors hostname of
        Undefined \<Rightarrow> websiteSelectors ''default''
      | v \<Rightarrow> v)"

section \<open>Link discovery\<close>

text \<open>
  \<open>articleLinks\<close> is a \<open>Set\<close>: insertion-ordered, without duplicates. The console is
  kept for the lines the discovery loops print.
\<close>

datatype console_line = TryingGeneralApproach | InvalidArticleUrl string

record discovery =
  articleLinks :: "string list"
  console :: "console_line list"

definition setAdd :: "string \<Rightarrow> string list \<Rightarrow> string list" where
  "setAdd x xs = (if x \<in> set xs then xs else xs @ [x])"

definition visitLink :: "resolver \<Rightarrow> string \<Rightarrow> discovery \<Rightarrow> element \<Rightarrow> discovery" where
  "visitLink resolve url st link =
     (case attr ''href'' link of
        None \<Rightarrow> st
      | Some href \<Rightarrow>
          if href = [] then st
          else (case toAbsolute resolve url href of
                  None \<Rightarrow> st\<lparr>console := console st @ [InvalidArticleUrl href]\<rparr>
                | Some absoluteUrl \<Rightarrow>
                    if looksLikeArticle absoluteUrl
                    then st\<lparr>articleLinks := setAdd absoluteUrl (articleLinks st)\<rparr>
                    else st))"

definition visitContainer :: "resolver \<Rightarrow> string \<Rightarrow> discovery \<Rightarrow> element \<Rightarrow> discovery" where
  "visitContainer resolve url st el = foldl (visitLink resolve url) st (elAnchors el)"

definition selectorPass :: "resolver \<Rightarrow> string \<Rightarrow> cheerio \<Rightarrow> string list \<Rightarrow> discovery" where
  \<comment> \<open>\<open>selectors.article.forEach(articleSelector => $(articleSelector).each(...))\<close>\<close>
  "selectorPass resolve url doc sels =
     foldl (\<lambda>st articleSelector. foldl (visitContainer resolve url) st (doc articleSelector))
           \<lparr>articleLinks = [], console = []\<rparr> sels"

definition generalPass :: "resolver \<Rightarrow> string \<Rightarrow> cheerio \<Rightarrow> discovery \<Rightarrow> discovery" where
  \<comment> \<open>the body of \<open>if (articleLinks.size === 0)\<close>\<close>
  "generalPass resolve url doc st =
     foldl (visitLink resolve url) (st\<lparr>console := console st @ [TryingGeneralApproach]\<rparr>)
           (doc ''a'')"

definition discoverLinks :: "resolver \<Rightarrow> string \<Rightarrow> cheerio \<Rightarrow> string list \<Rightarrow> discovery" where
  "discoverLinks resolve url doc sels =
     (let st = selectorPass resolve url doc sels
      in if length (articleLinks st) = 0 then generalPass resolve url doc st else st)"

section \<open>Field extraction\<close>

definition titleStep :: "cheerio \<Rightarrow> string \<Rightarrow> string \<Rightarrow> string" where
  "titleStep doc title selector =
     (let found = trim (firstText (doc selector)) in if found \<noteq> [] then found else title)"

definition extractTitle :: "cheerio \<Rightarrow> string list \<Rightarrow> string" where
  "extractTitle doc sels =
     (let title = foldl (titleStep doc) [] sels
      in if title = [] then trim (firstText (doc ''h1, h2, h3, h4, h5, h6'')) else title)"

definition fieldStep :: "cheerio \<Rightarrow> string \<Rightarrow> string \<Rightarrow> string" where
  \<comment> \<open>the callback of the author loop and of the date loop (the same text twice)\<close>
  "fieldStep doc cur selector =
     (case doc selector of
        [] \<Rightarrow> cur
      | found # _ \<Rightarrow>
          if startsWith ''meta'' selector
          then (case attr ''content'' found of
                  None \<Rightarrow> cur
                | Some content \<Rightarrow> if content \<noteq> [] then content else cur)
          else (let text = trim (elText found) in if text \<noteq> [] then text else cur))"

definition extractAuthor :: "cheerio \<Rightarrow> string list \<Rightarrow> string" where
  "extractAuthor doc sels = foldl (fieldStep doc) [] sels"

definition extractDate :: "cheerio \<Rightarrow> string list \<Rightarrow> string" where
  "extractDate doc sels = foldl (fieldStep doc) [] sels"

text \<open>
  The extended server and the serverless handler iterate the same selector lists with
  \<open>for (const selector of ...) { if (el.length) { x = el.text().trim(); break; } }\<close>.
\<close>

fun firstMatchText :: "cheerio \<Rightarrow> string list \<Rightarrow> string" where
  "firstMatchText doc [] = []"
| "firstMatchText doc (selector # sels) =
     (case doc selector of
        [] \<Rightarrow> firstMatchText doc sels
      | el # _ \<Rightarrow> trim (elText el))"

subsection \<open>Date normalisation\<close>

text \<open>
  The regular expression
  \<open>/(\d{4}[-/]\d{1,2}[-/]\d{1,2})|(\d{1,2}[-/]\d{1,2}[-/]\d{4})/\<close>: a matcher returns
  what it consumed and what is left. Each \<open>\d{1,2}\<close> is followed by a separator or by
  nothing, so the greedy choice is the only one that can succeed.
\<close>

type_synonym matcher = "string \<Rightarrow> (string \<times> string) option"

definition isSep :: "char \<Rightarrow> bool" where
  "isSep c \<longleftrightarrow> c = CHR ''-'' \<or> c = CHR ''/''"

definition classN :: "nat \<Rightarrow> (char \<Rightarrow> bool) \<Rightarrow> matcher" where
  "classN n p s =
     (if n \<le> length s \<and> list_all p (take n s) then Some (take n s, drop n s) else None)"

fun digits12 :: matcher where
  "digits12 (a # b # r) =
     (if isDigit a \<and> isDigit b then Some ([a, b], r)
      else if isDigit a then Some ([a], b # r) else None)"
| "digits12 [a] = (if isDigit a then Some ([a], []) else None)"
| "digits12 [] = None"

definition seqM :: "matcher \<Rightarrow> matcher \<Rightarrow> matcher" where
  "seqM m1 m2 s =
     (case m1 s of
        None \<Rightarrow> None
      | Some (a, r) \<Rightarrow> (case m2 r of None \<Rightarrow> None | Some (b, r') \<Rightarrow> Some (a @ b, r')))"

definition ymdAt :: matcher where
  "ymdAt = seqM (classN 4 isDigit) (seqM (classN 1 isSep) (seqM digits12
             (seqM (classN 1 isSep) digits12)))"

definition dmyAt :: matcher where
  "dmyAt = seqM digits12 (seqM (classN 1 isSep) (seqM digits12
             (seqM (classN 1 isSep) (classN 4 isDigit))))"

fun dateMatch :: "string \<Rightarrow> string option" where
  \<comment> \<open>\<open>date.match(...)\<close>: \<open>None\<close> is null, \<open>Some m\<close> has \<open>m\<close> as \<open>dateMatch[0]\<close>\<close>
  "dateMatch [] = None"
| "dateMatch (c # cs) =
     (case ymdAt (c # cs) of
        Some (m, _) \<Rightarrow> Some m
      | None \<Rightarrow> (case dmyAt (c # cs) of
                   Some (m, _) \<Rightarrow> Some m
                 | None \<Rightarrow> dateMatch cs))"

definition formatDate :: "(string \<Rightarrow> string option) \<Rightarrow> string \<Rightarrow> string" where
  \<comment> \<open>\<open>toISO s\<close> is \<open>new Date(s).toISOString()\<close>, \<open>None\<close> when the time value is NaN\<close>
  "formatDate toISO date =
     (if date = [] then []
      else (case toISO date of
              Some stamp \<Rightarrow> stamp
            | None \<Rightarrow>
                (case dateMatch date of
                   None \<Rightarrow> []
                 | Some m \<Rightarrow> (case toISO m of Some stamp \<Rightarrow> stamp | None \<Rightarrow> []))))"

subsection \<open>Image\<close>

definition srcsetFirst :: "string \<Rightarrow> string" where
  \<comment> \<open>\<open>.split(',')[0]?.trim().split(' ')[0]\<close>\<close>
  "srcsetFirst v =
     takeWhile (\<lambda>c. c \<noteq> CHR '' '') (trim (takeWhile (\<lambda>c. c \<noteq> CHR '','') v))"

definition possibleSrcs :: "element \<Rightarrow> string option list" where
  "possibleSrcs img =
     [attr ''src'' img, attr ''data-src'' img, attr ''data-lazy-src'' img,
      attr ''data-original'' img, attr ''data-url'' img,
      map_option srcsetFirst (attr ''data-srcset'' img)]"

definition checkSrc :: "resolver \<Rightarrow> string \<Rightarrow> string option \<Rightarrow> string option" where
  \<comment> \<open>one round of \<open>for (const src of possibleSrcs)\<close>: the URL assigned to \<open>imageUrl\<close>, if any\<close>
  "checkSrc resolve articleUrl srcOpt =
     (case srcOpt of
        None \<Rightarrow> None
      | Some src \<Rightarrow>
          if src \<noteq> [] \<and> \<not> startsWith ''data:'' src \<and> \<not> includesStr ''svg'' src
          then (case toAbsolute resolve articleUrl src of
                  None \<Rightarrow> None
                | Some absoluteUrl \<Rightarrow> if imageRegex absoluteUrl then Some absoluteUrl else None)
          else None)"

fun pickSrc :: "resolver \<Rightarrow> string \<Rightarrow> string option list \<Rightarrow> string option" where
  "pickSrc resolve articleUrl [] = None"
| "pickSrc resolve articleUrl (srcOpt # rest) =
     (case checkSrc resolve articleUrl srcOpt of
        Some absoluteUrl \<Rightarrow> Some absoluteUrl
      | None \<Rightarrow> pickSrc resolve articleUrl rest)"

definition imageStep :: "resolver \<Rightarrow> string \<Rightarrow> cheerio \<Rightarrow> string \<Rightarrow> string \<Rightarrow> string" where
  \<comment> \<open>the callback of \<open>selectors.image.forEach\<close>; its \<open>break\<close> leaves the inner loop only\<close>
  "imageStep resolve articleUrl doc imageUrl selector =
     (case doc selector of
        [] \<Rightarrow> imageUrl
      | img # _ \<Rightarrow>
          (case pickSrc resolve articleUrl (possibleSrcs img) of
             Some absoluteUrl \<Rightarrow> absoluteUrl
           | None \<Rightarrow> imageUrl))"

fun scanImgs :: "resolver \<Rightarrow> string \<Rightarrow> element list \<Rightarrow> string" where
  \<comment> \<open>\<open>for (let i = 0; i < imgs.length; i++) { ...; if (imageUrl) break; }\<close>\<close>
  "scanImgs resolve articleUrl [] = []"
| "scanImgs resolve articleUrl (img # imgs) =
     (case pickSrc resolve articleUrl (possibleSrcs img) of
        Some absoluteUrl \<Rightarrow> absoluteUrl
      | None \<Rightarrow> scanImgs resolve articleUrl imgs)"

definition extractImage :: "resolver \<Rightarrow> string \<Rightarrow> cheerio \<Rightarrow> string list \<Rightarrow> string" where
  "extractImage resolve articleUrl doc sels =
     (let imageUrl = foldl (imageStep resolve articleUrl doc) [] sels
      in if imageUrl = [] then scanImgs resolve articleUrl (doc ''img'') else imageUrl)"

section \<open>The world outside\<close>

text \<open>
  What the handler reads from its environment: the network, the HTML parser, the URL
  parser and the clock. An exception is a value of \<open>js_error\<close>; the three kinds are the
  ones the last \<open>catch\<close> of the handler tells apart (\<open>error.response\<close>, \<open>error.request\<close>,
  neither).
\<close>

datatype fetch_outcome = Response nat string | NoResponse | SetupFailure

datatype js_error = ErrorWithResponse nat | ErrorWithRequest | OtherError

record world =
  network :: "string \<Rightarrow> fetch_outcome"
  cheerioLoad :: "string \<Rightarrow> cheerio option"
  resolveUrl :: resolver
  urlHostname :: "string \<Rightarrow> string option"
  dateToISO :: "string \<Rightarrow> string option"
  clock :: "string \<Rightarrow> string"

text \<open>
  \<open>cheerioLoad\<close> is \<open>cheerio.load\<close> (\<open>None\<close> when it throws), \<open>urlHostname u\<close> is
  \<open>new URL(u).hostname\<close> (\<open>None\<close> when the constructor throws), and \<open>clock u\<close> is the value of
  \<open>new Date().toISOString()\<close> read while the article at \<open>u\<close> is pushed.
\<close>

definition validateStatus :: "nat \<Rightarrow> bool" where
  "validateStatus status \<longleftrightarrow> status \<ge> 200 \<and> status < 500"

definition defaultValidateStatus :: "nat \<Rightarrow> bool" where
  \<comment> \<open>the client's default when the call passes none\<close>
  "defaultValidateStatus status \<longleftrightarrow> status \<ge> 200 \<and> status < 300"

definition axios_get ::
  "(nat \<Rightarrow> bool) \<Rightarrow> (string \<Rightarrow> fetch_outcome) \<Rightarrow> string \<Rightarrow> js_error + (nat \<times> string)" where
  "axios_get valid net u =
     (case net u of
        Response status body \<Rightarrow>
          if valid status then Inr (status, body) else Inl (ErrorWithResponse status)
      | NoResponse \<Rightarrow> Inl ErrorWithRequest
      | SetupFailure \<Rightarrow> Inl OtherError)"

definition digitChar :: "nat \<Rightarrow> char" where
  "digitChar d = ''0123456789'' ! d"

fun showNat :: "nat \<Rightarrow> string" where
  \<comment> \<open>a number inside a template literal\<close>
  "showNat n = (if n < 10 then [digitChar n] else showNat (n div 10) @ [digitChar (n mod 10)])"

declare showNat.simps [simp del]

section \<open>Article processing\<close>

record news_item =
  item_title :: string
  item_author :: string
  item_date :: string
  item_source :: string
  item_url :: string
  item_imageUrl :: "string option"

definition processArticle ::
  "world \<Rightarrow> selector_profile \<Rightarrow> string \<Rightarrow> string \<Rightarrow> js_error + news_item option" where
  \<comment> \<open>the \<open>try\<close> block of the article loop: \<open>Inl\<close> an exception, \<open>Inr None\<close> nothing pushed\<close>
  "processArticle w selectors hostname articleUrl =
     (case axios_get validateStatus (network w) articleUrl of
        Inl e \<Rightarrow> Inl e
      | Inr (status, body) \<Rightarrow>
          if status = 200
          then (case cheerioLoad w body of
                  None \<Rightarrow> Inl OtherError
                | Some doc \<Rightarrow>
                    (let title = extractTitle doc (titleSels selectors);
                         author = extractAuthor doc (authorSels selectors);
                         date = extractDate doc (dateSels selectors);
                         formattedDate = formatDate (dateToISO w) date;
                         imageUrl = extractImage (resolveUrl w) articleUrl doc (imageSels selectors)
                     in if title \<noteq> []
                        then Inr (Some \<lparr>
                               item_title = title,
                               item_author = (if author \<noteq> [] then author else ''Unknown''),
                               item_date = (if formattedDate \<noteq> [] then formattedDate
                                            else clock w articleUrl),
                               item_source = hostname,
                               item_url = articleUrl,
                               item_imageUrl = (if imageUrl \<noteq> [] then Some imageUrl else None)\<rparr>)
                        else Inr None))
          else Inr None)"

definition articleStep ::
  "world \<Rightarrow> selector_profile \<Rightarrow> string \<Rightarrow> news_item list \<Rightarrow> string \<Rightarrow> news_item list" where
  \<comment> \<open>one round of \<open>for (const articleUrl of articleLinks)\<close> with its \<open>catch\<close>\<close>
  "articleStep w selectors hostname newsItems articleUrl =
     (case processArticle w selectors hostname articleUrl of
        Inl e \<Rightarrow> newsItems
      | Inr None \<Rightarrow> newsItems
      | Inr (Some item) \<Rightarrow> newsItems @ [item])"

definition processArticles ::
  "world \<Rightarrow> selector_profile \<Rightarrow> string \<Rightarrow> string list \<Rightarrow> news_item list" where
  "processArticles w selectors hostname links =
     foldl (articleStep w selectors hostname) [] links"

section \<open>The scrape handler\<close>

datatype reply_body = ErrorBody string | NewsBody "news_item list"

type_synonym reply = "nat \<times> reply_body"

definition forbiddenMessage :: string where
  "forbiddenMessage =
     ''Access to this website is forbidden. The website might be blocking scraping attempts.''"

definition noArticlesMessage :: string where
  "noArticlesMessage =
     ''No news articles found. The website might use a different structure or dynamic loading.''"

definition noResponseMessage :: string where
  "noResponseMessage =
     ''No response received from the website. Please check the URL and try again.''"

definition setupErrorMessage :: string where
  "setupErrorMessage = ''Error setting up the request. Please try again.''"

definition scrapeList :: "world \<Rightarrow> string \<Rightarrow> string \<Rightarrow> js_error + reply" where
  \<comment> \<open>the outer \<open>try\<close> block after the URL has been validated\<close>
  "scrapeList w url hostname =
     (case axios_get validateStatus (network w) url of
        Inl e \<Rightarrow> Inl e
      | Inr (status, body) \<Rightarrow>
          if status = 403
          then Inr (403, ErrorBody forbiddenMessage)
          else if status \<noteq> 200
          then Inr (status, ErrorBody
            (''Failed to fetch the website. Status code: '' @ showNat status))
          else (case cheerioLoad w body of
                  None \<Rightarrow> Inl OtherError
                | Some doc \<Rightarrow>
                    (case selectorsFor hostname of
                       ProfileObject selectors \<Rightarrow>
                         (let links = articleLinks
                                (discoverLinks (resolveUrl w) url doc (articleSels selectors));
                              newsItems = processArticles w selectors hostname links
                          in if length newsItems = 0
                             then Inr (404, ErrorBody noArticlesMessage)
                             else Inr (200, NewsBody newsItems))
                     | _ \<Rightarrow> Inl OtherError)))"

fun errorReply :: "js_error \<Rightarrow> reply" where
  \<comment> \<open>the outer \<open>catch\<close>\<close>
  "errorReply (ErrorWithResponse status) =
     (status, ErrorBody (''Server responded with status '' @ showNat status))"
| "errorReply ErrorWithRequest =
     (500, ErrorBody noResponseMessage)"
| "errorReply OtherError =
     (500, ErrorBody setupErrorMessage)"

definition scrape :: "world \<Rightarrow> string \<Rightarrow> reply" where
  "scrape w url =
     (if url = [] then (400, ErrorBody ''URL is required'')
      else (case urlHostname w url of
              None \<Rightarrow> (400, ErrorBody ''Invalid URL format'')
            | Some hostname \<Rightarrow>
                (case scrapeList w url hostname of
                   Inr r \<Rightarrow> r
                 | Inl e \<Rightarrow> errorReply e)))"

section \<open>The serverless handler's article loop\<close>

text \<open>
  The article fetch of this loop passes neither \<open>validateStatus\<close> nor \<open>timeout\<close>: the
  client's default status test applies, and a fetch that never completes has no outcome
  in \<open>fetch_outcome\<close> (with the base server's timeout it ends as \<open>NoResponse\<close>).
\<close>

record capped_item =
  c_title :: string
  c_author :: string
  c_date :: string
  c_image :: "string option"
  c_url :: string

fun cappedImage ::
  "resolver \<Rightarrow> string \<Rightarrow> cheerio \<Rightarrow> string list \<Rightarrow> js_error + string option" where
  \<comment> \<open>\<open>Inr None\<close> is \<open>undefined\<close>, \<open>Inl\<close> an exception of \<open>new URL\<close>\<close>
  "cappedImage resolve articleUrl doc [] = Inr (Some [])"
| "cappedImage resolve articleUrl doc (selector # sels) =
     (case doc selector of
        [] \<Rightarrow> cappedImage resolve articleUrl doc sels
      | imageElement # _ \<Rightarrow>
          (case attr ''src'' imageElement of
             None \<Rightarrow> Inr None
           | Some imageSrc \<Rightarrow>
               if imageSrc \<noteq> [] \<and> \<not> startsWith ''http'' imageSrc
               then (case resolve imageSrc articleUrl of
                       None \<Rightarrow> Inl OtherError
                     | Some absolute \<Rightarrow> Inr (Some absolute))
               else Inr (Some imageSrc)))"

definition cappedProcessArticle ::
  "world \<Rightarrow> selector_profile \<Rightarrow> string \<Rightarrow> js_error + capped_item option" where
  "cappedProcessArticle w selectors articleUrl =
     (case axios_get defaultValidateStatus (network w) articleUrl of
        Inl e \<Rightarrow> Inl e
      | Inr (status, body) \<Rightarrow>
          (case cheerioLoad w body of
             None \<Rightarrow> Inl OtherError
           | Some doc \<Rightarrow>
               (let title = firstMatchText doc (titleSels selectors);
                    author = firstMatchText doc (authorSels selectors);
                    date = firstMatchText doc (dateSels selectors)
                in (case cappedImage (resolveUrl w) articleUrl doc (imageSels selectors) of
                      Inl e \<Rightarrow> Inl e
                    | Inr imageSrc \<Rightarrow>
                        if title \<noteq> []
                        then Inr (Some \<lparr>c_title = title, c_author = author, c_date = date,
                                        c_image = imageSrc, c_url = articleUrl\<rparr>)
                        else Inr None))))"

definition cappedStep ::
  "world \<Rightarrow> selector_profile \<Rightarrow> capped_item list \<Rightarrow> string \<Rightarrow> capped_item list" where
  "cappedStep w selectors newsItems articleUrl =
     (case cappedProcessArticle w selectors articleUrl of
        Inl e \<Rightarrow> newsItems
      | Inr None \<Rightarrow> newsItems
      | Inr (Some item) \<Rightarrow> newsItems @ [item])"

definition cappedLoop ::
  "world \<Rightarrow> selector_profile \<Rightarrow> string list \<Rightarrow> capped_item list" where
  \<comment> \<open>\<open>for (const articleUrl of limitedLinks)\<close>\<close>
  "cappedLoop w selectors limitedLinks = foldl (cappedStep w selectors) [] limitedLinks"

definition cappedProcessArticles ::
  "world \<Rightarrow> selector_profile \<Rightarrow> string list \<Rightarrow> capped_item list" where
  \<comment> \<open>\<open>limitedLinks = Array.from(articleLinks).slice(0, 10)\<close>\<close>
  "cappedProcessArticles w selectors links = cappedLoop w selectors (take 10 links)"

section \<open>Reading aids for the properties\<close>

text \<open>
  The value one selector offers to the author or date loop, and to the image loop:
  the loops' callbacks assign it when there is one and keep the running value otherwise
  (lemmas \<open>fieldStep_fieldValue\<close> and \<open>imageStep_imageValue\<close> below).
\<close>

definition fieldValue :: "cheerio \<Rightarrow> string \<Rightarrow> string" where
  "fieldValue doc selector =
     (case doc selector of
        [] \<Rightarrow> []
      | found # _ \<Rightarrow>
          if startsWith ''meta'' selector
          then (case attr ''content'' found of None \<Rightarrow> [] | Some content \<Rightarrow> content)
          else trim (elText found))"

definition imageValue :: "resolver \<Rightarrow> string \<Rightarrow> cheerio \<Rightarrow> string \<Rightarrow> string option" where
  "imageValue resolve articleUrl doc selector =
     (case doc selector of
        [] \<Rightarrow> None
      | img # _ \<Rightarrow> pickSrc resolve articleUrl (possibleSrcs img))"

text \<open>
  The specification words the article test on the path of the URL. That reading is
  written down here, beside \<open>looksLikeArticle\<close> from the source, to compare the two:
  the path is what follows the scheme and the authority, up to the query or fragment.
\<close>

fun afterScheme :: "string \<Rightarrow> string" where
  "afterScheme (a # b # c # r) =
     (if [a, b, c] = ''://'' then r else afterScheme (b # c # r))"
| "afterScheme r = []"

definition urlPath :: "string \<Rightarrow> string" where
  "urlPath u =
     takeWhile (\<lambda>c. c \<noteq> CHR ''?'' \<and> c \<noteq> CHR ''#'')
       (dropWhile (\<lambda>c. c \<noteq> CHR ''/'') (afterScheme u))"

definition spec_looksLikeArticle :: "string \<Rightarrow> bool" where
  "spec_looksLikeArticle u \<longleftrightarrow>
     includesStr ''/news/'' (urlPath u) \<or>
     includesStr ''/article/'' (urlPath u) \<or>
     includesStr ''/story/'' (urlPath u) \<or>
     datePathRegex (urlPath u)"

text \<open>
  The specification words the image test as a test on the absolute URL alone. That
  reading is written down here, to compare it with \<open>checkSrc\<close> from the source, which
  looks at the attribute value before resolution and at the URL after it.
\<close>

definition spec_looksLikeImage :: "string \<Rightarrow> bool" where
  "spec_looksLikeImage absoluteUrl \<longleftrightarrow>
     \<not> startsWith ''data:'' absoluteUrl \<and> \<not> includesStr ''svg'' absoluteUrl \<and>
     imageRegex absoluteUrl"

section \<open>Example documents and an example world\<close>

definition twoMatchDoc :: cheerio where
  \<comment> \<open>a page on which \<open>.a\<close> and \<open>.b\<close> both match, with different texts\<close>
  "twoMatchDoc selector =
     (if selector = ''.a'' then [Element '' First '' [] []]
      else if selector = ''.b'' then [Element ''Last'' [] []]
      else [])"

definition twoImageDoc :: cheerio where
  \<comment> \<open>a page on which \<open>.x\<close> and \<open>.y\<close> both match an image with a valid source\<close>
  "twoImageDoc selector =
     (if selector = ''.x'' then [Element [] [(''src'', ''https://site.com/x.jpg'')] []]
      else if selector = ''.y'' then [Element [] [(''src'', ''https://site.com/y.png?w=200'')] []]
      else if selector = ''img''
      then [Element [] [(''src'', ''https://site.com/x.jpg'')] [],
            Element [] [(''src'', ''https://site.com/y.png?w=200'')] []]
      else [])"

definition siteResolver :: resolver where
  \<comment> \<open>resolution against a base on \<open>https://site.com\<close>, for path-absolute references\<close>
  "siteResolver href base =
     (if startsWith ''/'' href \<and> startsWith ''https://site.com/'' base
      then Some (''https://site.com'' @ href) else None)"

definition listDoc :: cheerio where
  \<comment> \<open>a list page without article containers; its anchors lead to four articles,
      the first of them on another site\<close>
  "listDoc selector =
     (if selector = ''a''
      then [Element ''One'' [(''href'', ''https://other.org/news/1'')] [],
            Element ''Two'' [(''href'', ''/news/123'')] [],
            Element ''Three'' [(''href'', ''https://site.com/story/3'')] [],
            Element ''About'' [(''href'', ''/about'')] []]
      else [])"

definition articleDoc :: cheerio where
  \<comment> \<open>an article page with a headline and nothing else\<close>
  "articleDoc selector =
     (if selector = ''h1'' then [Element ''Headline'' [] []] else [])"

definition fullArticleDoc :: cheerio where
  \<comment> \<open>an article page with headline, author, date and picture\<close>
  "fullArticleDoc selector =
     (if selector = ''h1'' then [Element ''Storm'' [] []]
      else if selector = ''.byline'' then [Element '' A. Reporter '' [] []]
      else if selector = ''time'' then [Element ''2024-05-01'' [] []]
      else if selector = ''img'' then [Element [] [(''src'', ''/img/storm.JPG'')] []]
      else [])"

definition demoWorld :: world where
  "demoWorld = \<lparr>
     network = (\<lambda>u.
       if u = ''https://site.com/'' then Response 200 ''LIST''
       else if u = ''http://constructor/'' then Response 200 ''LIST''
       else if u = ''https://site.com/empty'' then Response 200 ''EMPTY''
       else if u = ''https://site.com/blocked'' then Response 403 []
       else if u = ''https://site.com/missing'' then Response 404 []
       else if u = ''https://site.com/down'' then NoResponse
       else if u = ''https://other.org/news/1'' then Response 200 ''ARTICLE''
       else if u = ''https://site.com/news/123'' then Response 503 []
       else if u = ''https://site.com/story/3'' then Response 200 ''FULL''
       else NoResponse),
     cheerioLoad = (\<lambda>body.
       if body = ''LIST'' then Some listDoc
       else if body = ''ARTICLE'' then Some articleDoc
       else if body = ''FULL'' then Some fullArticleDoc
       else Some (\<lambda>selector. [])),
     resolveUrl = siteResolver,
     urlHostname = (\<lambda>u.
       if startsWith ''https://site.com/'' u then Some ''site.com''
       else if startsWith ''https://other.org/'' u then Some ''other.org''
       else if startsWith ''http://constructor/'' u then Some ''constructor''
       else None),
     dateToISO = (\<lambda>d. if d = ''2024-05-01'' then Some ''2024-05-01T00:00:00.000Z'' else None),
     clock = (\<lambda>u. ''2026-01-01T00:00:00.000Z'')
   \<rparr>"

definition headlineItem :: news_item where
  "headlineItem = \<lparr>item_title = ''Headline'', item_author = ''Unknown'',
     item_date = ''2026-01-01T00:00:00.000Z'', item_source = ''site.com'',
     item_url = ''https://other.org/news/1'', item_imageUrl = None\<rparr>"

definition stormItem :: news_item where
  "stormItem = \<lparr>item_title = ''Storm'', item_author = ''A. Reporter'',
     item_date = ''2024-05-01T00:00:00.000Z'', item_source = ''site.com'',
     item_url = ''https://site.com/story/3'',
     item_imageUrl = Some ''https://site.com/img/storm.JPG''\<rparr>"

definition cappedHeadline :: capped_item where
  "cappedHeadline = \<lparr>c_title = ''Headline'', c_author = [], c_date = [],
     c_image = Some [], c_url = ''https://other.org/news/1''\<rparr>"

definition demoLinks :: "string list" where
  "demoLinks = [''https://other.org/news/1'', ''https://site.com/news/123'',
                ''https://site.com/story/3'']"

definition dirResolver :: resolver where
  \<comment> \<open>resolution of a plain file name against a base that ends in a slash\<close>
  "dirResolver href base =
     (if href \<noteq> [] \<and> base \<noteq> [] \<and> last base = CHR ''/''
         \<and> \<not> list_ex (\<lambda>c. c \<in> set ''/:?#'') href
      then Some (base @ href) else None)"

definition statusWorld :: world where
  \<comment> \<open>the example world with one more article, answered with status 203\<close>
  "statusWorld = demoWorld\<lparr>network := (\<lambda>u.
       if u = ''https://site.com/news/203'' then Response 203 ''ARTICLE''
       else network demoWorld u)\<rparr>"

definition cappedStorm :: capped_item where
  "cappedStorm = \<lparr>c_title = ''Storm'', c_author = ''A. Reporter'', c_date = ''2024-05-01'',
     c_image = Some [], c_url = ''https://site.com/story/3''\<rparr>"

definition cappedPartial :: capped_item where
  "cappedPartial = \<lparr>c_title = ''Headline'', c_author = [], c_date = [],
     c_image = Some [], c_url = ''https://site.com/news/203''\<rparr>"

section \<open>Facts about the string primitives\<close>

lemma startsWith_iff: "startsWith p s \<longleftrightarrow> (\<exists>q. s = p @ q)"
  by (induction p s rule: startsWith.induct) auto

lemma searchAt_iff: "searchAt m s \<longleftrightarrow> (\<exists>p t. s = p @ t \<and> m t)"
proof (induction s)
  case Nil
  then show ?case by simp
next
  case (Cons c cs)
  show ?case
  proof
    assume "searchAt m (c # cs)"
    then consider "m (c # cs)" | "searchAt m cs" by auto
    then show "\<exists>p t. c # cs = p @ t \<and> m t"
    proof cases
      case 1
      then have "c # cs = [] @ (c # cs) \<and> m (c # cs)" by simp
      then show ?thesis by blast
    next
      case 2
      with Cons.IH obtain p t where "cs = p @ t" "m t" by blast
      then have "c # cs = (c # p) @ t \<and> m t" by simp
      then show ?thesis by blast
    qed
  next
    assume "\<exists>p t. c # cs = p @ t \<and> m t"
    then obtain p t where pt: "c # cs = p @ t" "m t" by blast
    show "searchAt m (c # cs)"
    proof (cases p)
      case Nil
      with pt have "m (c # cs)" by simp
      then show ?thesis by simp
    next
      case (Cons a p')
      with pt have "cs = p' @ t" by simp
      with pt(2) Cons.IH have "searchAt m cs" by blast
      then show ?thesis by simp
    qed
  qed
qed

lemma includes_iff: "includesStr n s \<longleftrightarrow> (\<exists>p q. s = p @ n @ q)"
proof (induction s)
  case Nil
  then show ?case by auto
next
  case (Cons c cs)
  show ?case
  proof
    assume "includesStr n (c # cs)"
    then consider "startsWith n (c # cs)" | "includesStr n cs" by auto
    then show "\<exists>p q. c # cs = p @ n @ q"
    proof cases
      case 1
      then obtain q where "c # cs = n @ q" by (auto simp: startsWith_iff)
      then have "c # cs = [] @ n @ q" by simp
      then show ?thesis by blast
    next
      case 2
      with Cons.IH obtain p q where "cs = p @ n @ q" by blast
      then have "c # cs = (c # p) @ n @ q" by simp
      then show ?thesis by blast
    qed
  next
    assume "\<exists>p q. c # cs = p @ n @ q"
    then obtain p q where pq: "c # cs = p @ n @ q" by blast
    show "includesStr n (c # cs)"
    proof (cases p)
      case Nil
      with pq have "startsWith n (c # cs)" by (auto simp: startsWith_iff)
      then show ?thesis by simp
    next
      case (Cons a p')
      with pq have "cs = p' @ n @ q" by simp
      with Cons.IH have "includesStr n cs" by blast
      then show ?thesis by simp
    qed
  qed
qed

lemma matchClasses_Cons:
  "matchClasses (p # ps) t \<longleftrightarrow> (\<exists>c r. t = c # r \<and> p c \<and> matchClasses ps r)"
  by (cases t) auto

lemma length_four: "length y = 4 \<longleftrightarrow> (\<exists>a b c d. y = [a, b, c, d])"
  by (auto simp: numeral_eq_Suc length_Suc_conv)

lemma length_two: "length y = 2 \<longleftrightarrow> (\<exists>a b. y = [a, b])"
  by (auto simp: numeral_eq_Suc length_Suc_conv)

lemma ymd_shape:
  "matchClasses [isDigit, isDigit, isDigit, isDigit, isSlash,
                 isDigit, isDigit, isSlash, isDigit, isDigit] t \<longleftrightarrow>
   (\<exists>y m d q. t = y @ ''/'' @ m @ ''/'' @ d @ q \<and> length y = 4 \<and> length m = 2
      \<and> length d = 2 \<and> list_all isDigit (y @ m @ d))"
  (is "?L \<longleftrightarrow> ?R")
proof
  assume ?L
  then obtain a b c d e f g h q where
    t: "t = [a, b, c, d] @ ''/'' @ [e, f] @ ''/'' @ [g, h] @ q"
    and dg: "list_all isDigit ([a, b, c, d] @ [e, f] @ [g, h])"
    by (auto simp: matchClasses_Cons isSlash_def)
  have "length [a, b, c, d] = 4 \<and> length [e, f] = 2 \<and> length [g, h] = 2" by simp
  with t dg show ?R by blast
next
  assume ?R
  then obtain y m d q where t: "t = y @ ''/'' @ m @ ''/'' @ d @ q"
    and l: "length y = 4" "length m = 2" "length d = 2"
    and dg: "list_all isDigit (y @ m @ d)" by blast
  from l obtain a b c e f g h i where "y = [a, b, c, e]" "m = [f, g]" "d = [h, i]"
    by (auto simp: length_four length_two)
  with t dg show ?L by (simp add: isSlash_def)
qed

lemma lowerChar_dot: "lowerChar c = CHR ''.'' \<longleftrightarrow> c = CHR ''.''"
  by (auto simp: lowerChar_def split: option.splits if_splits)

lemma queryTail_iff:
  "queryTail q \<longleftrightarrow> (q = [] \<or> (\<exists>r. q = ''?'' @ r \<and> \<not> list_ex isLineTerminator r))"
  by (cases q) (auto simp: queryTail_def)

lemma imageExtAt_iff:
  "imageExtAt t \<longleftrightarrow>
     (\<exists>e q. t = ''.'' @ e @ q \<and> map lowerChar e \<in> set imageExtensions \<and> queryTail q)"
  (is "?L \<longleftrightarrow> ?R")
proof
  assume ?L
  then obtain ext where ext: "ext \<in> set imageExtensions"
    and tk: "map lowerChar (take (Suc (length ext)) t) = CHR ''.'' # ext"
    and qt: "queryTail (drop (Suc (length ext)) t)"
    by (auto simp: imageExtAt_def list_ex_iff)
  from tk obtain c e where ce: "take (Suc (length ext)) t = c # e"
    and c: "lowerChar c = CHR ''.''" and e: "map lowerChar e = ext"
    by (cases "take (Suc (length ext)) t") auto
  have "t = take (Suc (length ext)) t @ drop (Suc (length ext)) t" by simp
  with ce c have "t = ''.'' @ e @ drop (Suc (length ext)) t"
    by (simp add: lowerChar_dot)
  with e ext qt show ?R by blast
next
  assume ?R
  then obtain e q where t: "t = ''.'' @ e @ q"
    and e: "map lowerChar e \<in> set imageExtensions" and q: "queryTail q" by blast
  let ?ext = "map lowerChar e"
  have "map lowerChar (take (Suc (length ?ext)) t) = CHR ''.'' # ?ext"
    using t by (simp add: lowerChar_dot)
  moreover have "drop (Suc (length ?ext)) t = q" using t by simp
  ultimately have "?ext \<in> set imageExtensions
      \<and> map lowerChar (take (Suc (length ?ext)) t) = CHR ''.'' # ?ext
      \<and> queryTail (drop (Suc (length ?ext)) t)"
    using e q by simp
  then show ?L unfolding imageExtAt_def list_ex_iff
    by (intro bexI[where x = "map lowerChar e"]) simp_all
qed

lemma imageRegex_iff:
  "imageRegex u \<longleftrightarrow>
     (\<exists>p e q. u = p @ ''.'' @ e @ q \<and> map lowerChar e \<in> set imageExtensions \<and>
        (q = [] \<or> (\<exists>r. q = ''?'' @ r \<and> \<not> list_ex isLineTerminator r)))"
  unfolding imageRegex_def searchAt_iff imageExtAt_iff queryTail_iff by blast

lemma imageRegex_nonempty: "imageRegex u \<Longrightarrow> u \<noteq> []"
  by (auto simp: imageRegex_iff)

lemma checkSrc_fixed:
  assumes "toAbsolute resolve base u = Some u"
  shows "(checkSrc resolve base (Some u) = Some u) =
        (\<not> startsWith ''data:'' u \<and> \<not> includesStr ''svg'' u \<and> imageRegex u)"
  using assms imageRegex_nonempty[of u] by (auto simp: checkSrc_def)

lemmas image_eval = checkSrc_def toAbsolute_def imageRegex_def imageExtAt_def
  imageExtensions_def queryTail_def lowerChar_def isLineTerminator_def

lemmas article_eval = looksLikeArticle_def datePathRegex_def isDigit_def isSlash_def

section \<open>The article test on URLs (C7)\<close>

text \<open>
  C7, as the specification states it: the article test holds exactly when the \<^emph>\<open>path\<close>
  of the URL contains \<open>/news/\<close>, \<open>/article/\<close> or \<open>/story/\<close>, or a date-shaped run of
  segments. The source tests the whole absolute URL, so a URL whose path is \<open>/about\<close>
  and whose query mentions \<open>/news/\<close> passes the test of the source and fails the test
  on the path.
\<close>

theorem looksLikeArticle_beyond_path:
  "looksLikeArticle ''https://site.com/about?ref=/news/''
   \<and> urlPath ''https://site.com/about?ref=/news/'' = ''/about''
   \<and> \<not> spec_looksLikeArticle ''https://site.com/about?ref=/news/''"
  by (simp add: article_eval spec_looksLikeArticle_def urlPath_def)

text \<open>
  C7, amended: the article test holds exactly when the absolute URL, taken as a whole
  string (query and fragment included), contains \<open>/news/\<close>, \<open>/article/\<close> or \<open>/story/\<close>,
  or contains four digits, a slash, two digits, a slash and two digits. It holds for
  \<open>https://site.com/news/x\<close>, \<open>https://site.com/article/y\<close> and
  \<open>https://site.com/2024/05/01/story\<close>, and fails for \<open>https://site.com/about\<close>.
\<close>

theorem looksLikeArticle_whole_url:
  "(looksLikeArticle u \<longleftrightarrow>
     (\<exists>p q. u = p @ ''/news/'' @ q) \<or> (\<exists>p q. u = p @ ''/article/'' @ q) \<or>
     (\<exists>p q. u = p @ ''/story/'' @ q) \<or>
     (\<exists>p y m d q. u = p @ y @ ''/'' @ m @ ''/'' @ d @ q \<and> length y = 4 \<and> length m = 2
        \<and> length d = 2 \<and> list_all isDigit (y @ m @ d)))
   \<and> looksLikeArticle ''https://site.com/news/x''
   \<and> looksLikeArticle ''https://site.com/article/y''
   \<and> looksLikeArticle ''https://site.com/2024/05/01/story''
   \<and> \<not> looksLikeArticle ''https://site.com/about''"
proof -
  have "looksLikeArticle u \<longleftrightarrow>
     (\<exists>p q. u = p @ ''/news/'' @ q) \<or> (\<exists>p q. u = p @ ''/article/'' @ q) \<or>
     (\<exists>p q. u = p @ ''/story/'' @ q) \<or>
     (\<exists>p y m d q. u = p @ y @ ''/'' @ m @ ''/'' @ d @ q \<and> length y = 4 \<and> length m = 2
        \<and> length d = 2 \<and> list_all isDigit (y @ m @ d))"
    unfolding looksLikeArticle_def datePathRegex_def includes_iff searchAt_iff ymd_shape
    by blast
  moreover have "looksLikeArticle ''https://site.com/news/x''"
    by (simp add: looksLikeArticle_def)
  moreover have "looksLikeArticle ''https://site.com/article/y''"
    by (simp add: looksLikeArticle_def)
  moreover have "looksLikeArticle ''https://site.com/2024/05/01/story''"
    by (simp add: article_eval)
  moreover have "\<not> looksLikeArticle ''https://site.com/about''"
    by (simp add: article_eval)
  ultimately show ?thesis by blast
qed

section \<open>The image-source test (C8)\<close>

lemma checkSrc_iff:
  "(checkSrc resolve base (Some src) = Some a) =
      (src \<noteq> [] \<and> \<not> startsWith ''data:'' src \<and> \<not> includesStr ''svg'' src \<and>
       toAbsolute resolve base src = Some a \<and> imageRegex a)"
  by (auto simp: checkSrc_def split: option.splits)

text \<open>
  C8, as the specification states it: the image test is true of an absolute URL exactly
  when the URL is not a data-URI, does not contain \<open>svg\<close> and ends in an image
  extension. The source tests \<open>data:\<close> and \<open>svg\<close> on the attribute value as written and
  the extension on the resolved URL: the relative source \<open>photo.jpg\<close> of a page under
  \<open>/news/svg-guide/\<close> is accepted, and the accepted absolute URL contains \<open>svg\<close>.
\<close>

theorem image_guard_on_raw_source:
  "checkSrc dirResolver ''https://site.com/news/svg-guide/'' (Some ''photo.jpg'')
     = Some ''https://site.com/news/svg-guide/photo.jpg''
   \<and> includesStr ''svg'' ''https://site.com/news/svg-guide/photo.jpg''
   \<and> \<not> spec_looksLikeImage ''https://site.com/news/svg-guide/photo.jpg''"
  by (simp add: image_eval dirResolver_def spec_looksLikeImage_def)

text \<open>
  C8, amended: a candidate source is accepted, with the absolute URL \<open>a\<close> as the image,
  exactly when the attribute value is non-empty, does not begin with \<open>data:\<close> and does
  not contain \<open>svg\<close>, its absolutisation succeeds with \<open>a\<close>, and \<open>a\<close> ends, with an
  optional query string after it, in \<open>.jpg\<close>, \<open>.jpeg\<close>, \<open>.png\<close>, \<open>.gif\<close> or \<open>.webp\<close> in
  any letter case; a missing attribute is never accepted. For a source that
  absolutisation leaves as it is (every source beginning with \<open>http\<close>) this is the
  test of the specification on that URL. \<open>https://site.com/a.jpg?w=200\<close> is accepted;
  \<open>data:image/png;base64,AAAA\<close> and \<open>https://site.com/icon.svg\<close> are refused.
\<close>

theorem image_source_test:
  "((checkSrc resolve base (Some src) = Some a) =
      (src \<noteq> [] \<and> \<not> startsWith ''data:'' src \<and> \<not> includesStr ''svg'' src \<and>
       toAbsolute resolve base src = Some a \<and>
       (\<exists>p e q. a = p @ ''.'' @ e @ q \<and> map lowerChar e \<in> set imageExtensions \<and>
           (q = [] \<or> (\<exists>r. q = ''?'' @ r \<and> \<not> list_ex isLineTerminator r)))))
   \<and> checkSrc resolve base None = None
   \<and> (toAbsolute resolve base u = Some u \<longrightarrow>
      (checkSrc resolve base (Some u) = Some u) =
        (\<not> startsWith ''data:'' u \<and> \<not> includesStr ''svg'' u \<and>
         (\<exists>p e q. u = p @ ''.'' @ e @ q \<and> map lowerChar e \<in> set imageExtensions \<and>
             (q = [] \<or> (\<exists>r. q = ''?'' @ r \<and> \<not> list_ex isLineTerminator r)))))
   \<and> checkSrc resolve base (Some ''https://site.com/a.jpg?w=200'')
       = Some ''https://site.com/a.jpg?w=200''
   \<and> checkSrc resolve base (Some ''data:image/png;base64,AAAA'') = None
   \<and> checkSrc resolve base (Some ''https://site.com/icon.svg'') = None"
proof -
  have "checkSrc resolve base (Some ''https://site.com/a.jpg?w=200'')
          = Some ''https://site.com/a.jpg?w=200''"
    by (simp add: image_eval)
  moreover have "checkSrc resolve base (Some ''data:image/png;base64,AAAA'') = None"
    by (simp add: checkSrc_def)
  moreover have "checkSrc resolve base (Some ''https://site.com/icon.svg'') = None"
    by (simp add: checkSrc_def)
  moreover have "checkSrc resolve base None = None"
    by (simp add: checkSrc_def)
  ultimately show ?thesis
    using checkSrc_fixed[of resolve base u] checkSrc_iff[of resolve base src a]
    unfolding imageRegex_iff by blast
qed

theorem image_source_test_witness:
  "toAbsolute dirResolver ''https://site.com/news/'' ''https://site.com/pic.PNG?x=1''
     = Some ''https://site.com/pic.PNG?x=1''
   \<and> checkSrc dirResolver ''https://site.com/news/'' (Some ''https://site.com/pic.PNG?x=1'')
     = Some ''https://site.com/pic.PNG?x=1''
   \<and> \<not> startsWith ''data:'' ''https://site.com/pic.PNG?x=1''
   \<and> \<not> includesStr ''svg'' ''https://site.com/pic.PNG?x=1''
   \<and> toAbsolute dirResolver ''https://site.com/news/'' ''pic.webp''
     = Some ''https://site.com/news/pic.webp''
   \<and> checkSrc dirResolver ''https://site.com/news/'' (Some ''pic.webp'')
     = Some ''https://site.com/news/pic.webp''"
  using image_source_test[of dirResolver "''https://site.com/news/''" "''pic.webp''"
      "''https://site.com/news/pic.webp''" "''https://site.com/pic.PNG?x=1''"]
  by (simp add: image_eval dirResolver_def)

section \<open>Facts about the extraction loops\<close>

lemma foldl_keep:
  "(\<And>c t. t \<in> set xs \<Longrightarrow> f c t = c) \<Longrightarrow> foldl f a xs = a"
  by (induction xs arbitrary: a) simp_all

lemma foldl_last_wins:
  assumes "\<And>c. f c s = v" and "\<And>c t. t \<in> set post \<Longrightarrow> f c t = c"
  shows "foldl f a (pre @ s # post) = v"
  using assms by (simp add: foldl_keep)

lemma fieldStep_fieldValue:
  "fieldStep doc cur s = (if fieldValue doc s \<noteq> [] then fieldValue doc s else cur)"
  by (simp add: fieldStep_def fieldValue_def Let_def split: list.splits option.splits)

lemma imageStep_imageValue:
  "imageStep resolve u doc cur s =
     (case imageValue resolve u doc s of Some v \<Rightarrow> v | None \<Rightarrow> cur)"
  by (simp add: imageStep_def imageValue_def split: list.splits)

lemma checkSrc_Some: "checkSrc resolve u srcOpt = Some v \<Longrightarrow> imageRegex v"
  by (auto simp: checkSrc_def split: option.splits if_splits)

lemma pickSrc_Some: "pickSrc resolve u srcs = Some v \<Longrightarrow> imageRegex v"
  by (induction srcs) (auto split: option.splits dest: checkSrc_Some)

lemma imageValue_Some: "imageValue resolve u doc s = Some v \<Longrightarrow> imageRegex v"
  by (auto simp: imageValue_def split: list.splits dest: pickSrc_Some)

lemma firstMatchText_skip:
  "(\<And>t. t \<in> set pre \<Longrightarrow> doc t = []) \<Longrightarrow>
   firstMatchText doc (pre @ rest) = firstMatchText doc rest"
  by (induction pre) simp_all

lemmas text_eval = extractTitle_def extractAuthor_def extractDate_def titleStep_def
  fieldStep_def fieldValue_def firstText_def trim_def isWhite_def attr_def

section \<open>Selector precedence of the text fields (C1)\<close>

text \<open>
  C1, as the specification states it: when several selectors of a text field match
  with non-empty text, the field takes the value of the last of them. The loops with
  \<open>break\<close> (the extended server and the serverless handler) stop at the first selector
  that matches an element: with \<open>.a\<close> and \<open>.b\<close> both matching, the field is the text
  of \<open>.a\<close>.
\<close>

theorem first_match_in_break_loops:
  "trim (firstText (twoMatchDoc ''.a'')) = ''First''
   \<and> trim (firstText (twoMatchDoc ''.b'')) = ''Last''
   \<and> firstMatchText twoMatchDoc [''.a'', ''.b''] = ''First''
   \<and> firstMatchText twoMatchDoc [''.a'', ''.b''] \<noteq> ''Last''"
  by (simp add: twoMatchDoc_def text_eval)

text \<open>
  C1, amended: in the base server (\<open>forEach\<close> with overwrite) the title, the author and
  the date take the value of the last selector in the list that offers a non-empty one
  (trimmed text, or the \<open>content\<close> attribute for a \<open>meta\<close> selector). In the extended
  server and the serverless handler (\<open>for ... break\<close>) the field is the trimmed text of
  the first selector that matches any element.
\<close>

theorem text_field_precedence:
  "(trim (firstText (doc s)) \<noteq> [] \<and> (\<forall>t\<in>set post. trim (firstText (doc t)) = [])
      \<longrightarrow> extractTitle doc (pre @ s # post) = trim (firstText (doc s)))
   \<and> (fieldValue doc s \<noteq> [] \<and> (\<forall>t\<in>set post. fieldValue doc t = [])
      \<longrightarrow> extractAuthor doc (pre @ s # post) = fieldValue doc s
        \<and> extractDate doc (pre @ s # post) = fieldValue doc s)
   \<and> (doc s' \<noteq> [] \<and> (\<forall>t\<in>set pre'. doc t = [])
      \<longrightarrow> firstMatchText doc (pre' @ s' # post') = trim (firstText (doc s')))"
proof (intro conjI impI)
  assume h: "trim (firstText (doc s)) \<noteq> [] \<and> (\<forall>t\<in>set post. trim (firstText (doc t)) = [])"
  have "foldl (titleStep doc) [] (pre @ s # post) = trim (firstText (doc s))"
    using h by (intro foldl_last_wins) (simp_all add: titleStep_def)
  with h show "extractTitle doc (pre @ s # post) = trim (firstText (doc s))"
    by (simp add: extractTitle_def)
next
  assume h: "fieldValue doc s \<noteq> [] \<and> (\<forall>t\<in>set post. fieldValue doc t = [])"
  have "foldl (fieldStep doc) [] (pre @ s # post) = fieldValue doc s"
    using h by (intro foldl_last_wins) (simp_all add: fieldStep_fieldValue)
  then show "extractAuthor doc (pre @ s # post) = fieldValue doc s"
    and "extractDate doc (pre @ s # post) = fieldValue doc s"
    by (simp_all add: extractAuthor_def extractDate_def)
next
  assume h: "doc s' \<noteq> [] \<and> (\<forall>t\<in>set pre'. doc t = [])"
  then have "firstMatchText doc (pre' @ s' # post') = firstMatchText doc (s' # post')"
    by (intro firstMatchText_skip) simp
  with h show "firstMatchText doc (pre' @ s' # post') = trim (firstText (doc s'))"
    by (simp add: firstText_def split: list.splits)
qed

theorem text_field_precedence_witness:
  "trim (firstText (twoMatchDoc ''.b'')) \<noteq> []
   \<and> trim (firstText (twoMatchDoc ''.none'')) = []
   \<and> extractTitle twoMatchDoc [''.a'', ''.b'', ''.none''] = ''Last''
   \<and> fieldValue twoMatchDoc ''.b'' \<noteq> []
   \<and> fieldValue twoMatchDoc ''.none'' = []
   \<and> extractAuthor twoMatchDoc [''.a'', ''.b'', ''.none''] = ''Last''
   \<and> extractDate twoMatchDoc [''.a'', ''.b'', ''.none''] = ''Last''
   \<and> twoMatchDoc ''.a'' \<noteq> []
   \<and> twoMatchDoc ''.none'' = []
   \<and> firstMatchText twoMatchDoc [''.none'', ''.a'', ''.b''] = ''First''"
  using text_field_precedence[of twoMatchDoc "''.b''" "[''.none'']" "[''.a'']"
      "''.a''" "[''.none'']" "[''.b'']"]
  by (simp add: twoMatchDoc_def text_eval)

section \<open>Selector precedence of the image (C2)\<close>

lemmas image_doc_eval = extractImage_def imageStep_def imageValue_def possibleSrcs_def
  attr_def image_eval

text \<open>
  C2, as the specification states it: when several image selectors yield a valid image
  source, the image comes from the first of them. The \<open>break\<close> of the source leaves the
  loop over the attributes only; \<open>forEach\<close> goes on, and a later selector overwrites
  the image: with \<open>.x\<close> and \<open>.y\<close> both valid, the image is the one of \<open>.y\<close>.
\<close>

theorem image_later_selector_overwrites:
  "imageValue siteResolver ''https://site.com/story/3'' twoImageDoc ''.x''
     = Some ''https://site.com/x.jpg''
   \<and> imageValue siteResolver ''https://site.com/story/3'' twoImageDoc ''.y''
     = Some ''https://site.com/y.png?w=200''
   \<and> extractImage siteResolver ''https://site.com/story/3'' twoImageDoc [''.x'', ''.y'']
     = ''https://site.com/y.png?w=200''"
  by (simp add: twoImageDoc_def image_doc_eval)

text \<open>
  C2, amended: the image selectors are all visited, and the returned image is the one
  obtained from the last selector in the list that yields a valid image source (the same
  precedence as title, author and date in the base server).
\<close>

theorem image_last_selector_wins:
  "imageValue resolve articleUrl doc s = Some v
   \<and> (\<forall>t\<in>set post. imageValue resolve articleUrl doc t = None)
   \<longrightarrow> extractImage resolve articleUrl doc (pre @ s # post) = v"
proof
  assume h: "imageValue resolve articleUrl doc s = Some v
   \<and> (\<forall>t\<in>set post. imageValue resolve articleUrl doc t = None)"
  have "foldl (imageStep resolve articleUrl doc) [] (pre @ s # post) = v"
    using h by (intro foldl_last_wins) (simp_all add: imageStep_imageValue)
  moreover have "v \<noteq> []" using h imageValue_Some imageRegex_nonempty by blast
  ultimately show "extractImage resolve articleUrl doc (pre @ s # post) = v"
    by (simp add: extractImage_def)
qed

theorem image_last_selector_wins_witness:
  "imageValue siteResolver ''https://site.com/story/3'' twoImageDoc ''.y''
     = Some ''https://site.com/y.png?w=200''
   \<and> imageValue siteResolver ''https://site.com/story/3'' twoImageDoc ''.z'' = None
   \<and> extractImage siteResolver ''https://site.com/story/3'' twoImageDoc
        [''.x'', ''.y'', ''.z''] = ''https://site.com/y.png?w=200''"
  using image_last_selector_wins[of siteResolver "''https://site.com/story/3''" twoImageDoc
      "''.y''" "''https://site.com/y.png?w=200''" "[''.z'']" "[''.x'']"]
  by (simp add: twoImageDoc_def image_doc_eval)

section \<open>Facts about the article loop\<close>

lemma foldl_emit:
  assumes "\<And>acc u. step acc u = acc @ step [] u"
  shows "foldl step acc xs = acc @ foldl step [] xs"
proof (induction xs arbitrary: acc)
  case Nil
  show ?case by simp
next
  case (Cons u us)
  have "foldl step acc (u # us) = step acc u @ foldl step [] us"
    using Cons.IH[of "step acc u"] by simp
  also have "\<dots> = acc @ step [] u @ foldl step [] us"
    using assms[of acc u] by simp
  also have "step [] u @ foldl step [] us = foldl step [] (u # us)"
    using Cons.IH[of "step [] u"] by simp
  finally show ?case .
qed

lemma articleStep_acc:
  "articleStep w s h acc u = acc @ articleStep w s h [] u"
  by (simp add: articleStep_def split: sum.splits option.splits)

lemma cappedStep_acc:
  "cappedStep w s acc u = acc @ cappedStep w s [] u"
  by (simp add: cappedStep_def split: sum.splits option.splits)

lemma processArticles_append:
  "processArticles w s h (xs @ ys) = processArticles w s h xs @ processArticles w s h ys"
  unfolding processArticles_def foldl_append
  by (rule foldl_emit) (rule articleStep_acc)

lemma processArticles_Cons:
  "processArticles w s h (u # us) = articleStep w s h [] u @ processArticles w s h us"
  unfolding processArticles_def foldl_Cons
  by (rule foldl_emit) (rule articleStep_acc)

lemma cappedLoop_append:
  "cappedLoop w s (xs @ ys) = cappedLoop w s xs @ cappedLoop w s ys"
  unfolding cappedLoop_def foldl_append
  by (rule foldl_emit) (rule cappedStep_acc)

lemma cappedLoop_Cons:
  "cappedLoop w s (u # us) = cappedStep w s [] u @ cappedLoop w s us"
  unfolding cappedLoop_def foldl_Cons
  by (rule foldl_emit) (rule cappedStep_acc)

lemma processArticles_member:
  "item \<in> set (processArticles w s h links) \<longleftrightarrow>
     (\<exists>u\<in>set links. processArticle w s h u = Inr (Some item))"
proof (induction links)
  case Nil
  show ?case by (simp add: processArticles_def)
next
  case (Cons u us)
  have "item \<in> set (articleStep w s h [] u) \<longleftrightarrow> processArticle w s h u = Inr (Some item)"
    by (auto simp: articleStep_def split: sum.splits option.splits)
  with Cons show ?case by (auto simp: processArticles_Cons)
qed


lemma processArticle_failure:
  assumes "network w u = NoResponse \<or> network w u = SetupFailure \<or>
     (\<exists>status body. network w u = Response status body \<and>
        (status \<noteq> 200 \<or> cheerioLoad w body = None))"
  shows "articleStep w s h [] u = []"
  using assms
  by (auto simp: articleStep_def processArticle_def axios_get_def
           split: sum.splits option.splits if_splits fetch_outcome.splits)

lemma cappedProcessArticle_failure:
  assumes "network w u = NoResponse \<or> network w u = SetupFailure \<or>
     (\<exists>status body. network w u = Response status body \<and>
        (\<not> defaultValidateStatus status \<or> cheerioLoad w body = None))"
  shows "cappedStep w s [] u = []"
  using assms
  by (auto simp: cappedStep_def cappedProcessArticle_def axios_get_def
           split: sum.splits option.splits if_splits fetch_outcome.splits)

lemma scrapeList_replies:
  assumes "network w url = Response 200 body" "cheerioLoad w body = Some doc"
    "selectorsFor hostname = ProfileObject selectors"
  shows "scrapeList w url hostname =
     (let newsItems = processArticles w selectors hostname
            (articleLinks (discoverLinks (resolveUrl w) url doc (articleSels selectors)))
      in if newsItems = [] then Inr (404, ErrorBody noArticlesMessage)
         else Inr (200, NewsBody newsItems))"
  using assms by (simp add: scrapeList_def axios_get_def validateStatus_def Let_def)

lemmas world_eval = demoWorld_def default_profile_def listDoc_def articleDoc_def
  fullArticleDoc_def siteResolver_def

lemmas loop_eval = processArticles_def articleStep_def processArticle_def axios_get_def
  validateStatus_def defaultValidateStatus_def formatDate_def Let_def
  cappedLoop_def cappedStep_def cappedProcessArticle_def


section \<open>Failures of single articles (C5)\<close>

lemma cappedImage_failure:
  assumes "network w u = Response status body" "cheerioLoad w body = Some doc"
    "cappedImage (resolveUrl w) u doc (imageSels s) = Inl e"
  shows "cappedStep w s [] u = []"
  using assms
  by (auto simp: cappedStep_def cappedProcessArticle_def axios_get_def Let_def
           split: sum.splits option.splits if_splits)

lemma cappedStep_success:
  assumes "network w u = Response status body" "defaultValidateStatus status"
    "cheerioLoad w body = Some doc" "firstMatchText doc (titleSels s) \<noteq> []"
    "cappedImage (resolveUrl w) u doc (imageSels s) = Inr img"
  shows "cappedStep w s [] u =
     [\<lparr>c_title = firstMatchText doc (titleSels s),
       c_author = firstMatchText doc (authorSels s),
       c_date = firstMatchText doc (dateSels s),
       c_image = img, c_url = u\<rparr>]"
  using assms
  by (simp add: cappedStep_def cappedProcessArticle_def axios_get_def Let_def)

lemmas status_world_eval = statusWorld_def world_eval

lemma status_items:
  "processArticles statusWorld default_profile ''site.com''
      [''https://other.org/news/1'', ''https://site.com/news/123'', ''https://site.com/story/3'']
     = [headlineItem, stormItem]"
  by (simp add: headlineItem_def stormItem_def status_world_eval loop_eval text_eval
        image_doc_eval)

lemma status_capped:
  "cappedLoop statusWorld default_profile
      [''https://other.org/news/1'', ''https://site.com/news/123'', ''https://site.com/story/3'']
     = [cappedHeadline, cappedStorm]"
  by (simp add: cappedHeadline_def cappedStorm_def status_world_eval loop_eval text_eval
        image_doc_eval)

lemma status_capped_203:
  "cappedLoop statusWorld default_profile
      [''https://other.org/news/1'', ''https://site.com/news/203'', ''https://site.com/story/3'']
     = [cappedHeadline, cappedPartial, cappedStorm]"
  by (simp add: cappedHeadline_def cappedStorm_def cappedPartial_def status_world_eval
        loop_eval text_eval image_doc_eval)

text \<open>
  C5, as the specification states it: a failure of one article, a status other than 200
  among them, is caught and the article is skipped. The loop of the serverless handler
  fetches without a status test, so the client's default applies and every status from
  200 to 299 is taken: an article answered with 203 is parsed and its record is pushed,
  where the base server pushes nothing.
\<close>

theorem capped_loop_keeps_other_2xx:
  "network statusWorld ''https://site.com/news/203'' = Response 203 ''ARTICLE''
   \<and> cappedLoop statusWorld default_profile [''https://site.com/news/203''] = [cappedPartial]
   \<and> cappedProcessArticles statusWorld default_profile [''https://site.com/news/203'']
        = [cappedPartial]
   \<and> c_url cappedPartial = ''https://site.com/news/203''
   \<and> processArticles statusWorld default_profile ''site.com'' [''https://site.com/news/203'']
        = []"
  by (simp add: cappedPartial_def cappedProcessArticles_def status_world_eval loop_eval
        text_eval image_doc_eval)

text \<open>
  C5, amended: in the base server a failure while fetching or extracting one article
  (no response or a timeout, any status other than 200, a parse error) is caught or
  passed over, and the records of the articles before and after it are those the loop
  produces without it. In the loop of the serverless handler the same holds for a
  fetch that ends without a response, a status outside 200 to 299, a parse error and a
  failing resolution of the image URL; an article answered with any status from 200 to
  299 and a non-empty title is processed, and its record stands between those of the
  articles before and after it. No article outcome makes the request throw: once the
  list page is fetched and parsed, the \<open>try\<close> block of the handler returns a reply.
\<close>

theorem article_failure_is_skipped:
  "(network w u = NoResponse \<or> network w u = SetupFailure \<or>
     (\<exists>status body. network w u = Response status body \<and>
        (status \<noteq> 200 \<or> cheerioLoad w body = None))
    \<longrightarrow> processArticles w selectors hostname (before @ u # after)
        = processArticles w selectors hostname before
          @ processArticles w selectors hostname after)
   \<and> (network w u = NoResponse \<or> network w u = SetupFailure \<or>
     (\<exists>status body. network w u = Response status body \<and>
        (\<not> defaultValidateStatus status \<or> cheerioLoad w body = None \<or>
         (\<exists>doc e. cheerioLoad w body = Some doc \<and>
            cappedImage (resolveUrl w) u doc (imageSels selectors) = Inl e)))
    \<longrightarrow> cappedLoop w selectors (before @ u # after)
        = cappedLoop w selectors before @ cappedLoop w selectors after)
   \<and> (network w v = Response status' body' \<and> defaultValidateStatus status'
       \<and> cheerioLoad w body' = Some doc'
       \<and> firstMatchText doc' (titleSels selectors) \<noteq> []
       \<and> cappedImage (resolveUrl w) v doc' (imageSels selectors) = Inr img
    \<longrightarrow> cappedLoop w selectors (before @ v # after)
        = cappedLoop w selectors before
          @ \<lparr>c_title = firstMatchText doc' (titleSels selectors),
              c_author = firstMatchText doc' (authorSels selectors),
              c_date = firstMatchText doc' (dateSels selectors),
              c_image = img, c_url = v\<rparr>
          # cappedLoop w selectors after)
   \<and> (network w url = Response 200 body \<and> cheerioLoad w body = Some doc
       \<and> selectorsFor hostname = ProfileObject selectors
    \<longrightarrow> (\<exists>r. scrapeList w url hostname = Inr r))"
proof (intro conjI impI)
  assume "network w u = NoResponse \<or> network w u = SetupFailure \<or>
     (\<exists>status body. network w u = Response status body \<and>
        (status \<noteq> 200 \<or> cheerioLoad w body = None))"
  then have "articleStep w selectors hostname [] u = []" by (rule processArticle_failure)
  then show "processArticles w selectors hostname (before @ u # after)
        = processArticles w selectors hostname before
          @ processArticles w selectors hostname after"
    by (simp add: processArticles_append processArticles_Cons)
next
  assume a: "network w u = NoResponse \<or> network w u = SetupFailure \<or>
     (\<exists>status body. network w u = Response status body \<and>
        (\<not> defaultValidateStatus status \<or> cheerioLoad w body = None \<or>
         (\<exists>doc e. cheerioLoad w body = Some doc \<and>
            cappedImage (resolveUrl w) u doc (imageSels selectors) = Inl e)))"
  have "cappedStep w selectors [] u = []"
  proof (cases "\<exists>status body doc e. network w u = Response status body \<and>
            cheerioLoad w body = Some doc \<and>
            cappedImage (resolveUrl w) u doc (imageSels selectors) = Inl e")
    case True
    then show ?thesis using cappedImage_failure by blast
  next
    case False
    with a have "network w u = NoResponse \<or> network w u = SetupFailure \<or>
     (\<exists>status body. network w u = Response status body \<and>
        (\<not> defaultValidateStatus status \<or> cheerioLoad w body = None))"
      by blast
    then show ?thesis by (rule cappedProcessArticle_failure)
  qed
  then show "cappedLoop w selectors (before @ u # after)
        = cappedLoop w selectors before @ cappedLoop w selectors after"
    by (simp add: cappedLoop_append cappedLoop_Cons)
next
  assume a: "network w v = Response status' body' \<and> defaultValidateStatus status'
       \<and> cheerioLoad w body' = Some doc'
       \<and> firstMatchText doc' (titleSels selectors) \<noteq> []
       \<and> cappedImage (resolveUrl w) v doc' (imageSels selectors) = Inr img"
  then have "cappedStep w selectors [] v =
     [\<lparr>c_title = firstMatchText doc' (titleSels selectors),
       c_author = firstMatchText doc' (authorSels selectors),
       c_date = firstMatchText doc' (dateSels selectors),
       c_image = img, c_url = v\<rparr>]"
    using cappedStep_success[of w v status' body' doc' selectors img] by blast
  then show "cappedLoop w selectors (before @ v # after)
        = cappedLoop w selectors before
          @ \<lparr>c_title = firstMatchText doc' (titleSels selectors),
              c_author = firstMatchText doc' (authorSels selectors),
              c_date = firstMatchText doc' (dateSels selectors),
              c_image = img, c_url = v\<rparr>
          # cappedLoop w selectors after"
    by (simp add: cappedLoop_append cappedLoop_Cons)
next
  assume "network w url = Response 200 body \<and> cheerioLoad w body = Some doc
       \<and> selectorsFor hostname = ProfileObject selectors"
  then show "\<exists>r. scrapeList w url hostname = Inr r"
    by (auto simp: scrapeList_replies Let_def)
qed

theorem article_failure_is_skipped_witness:
  "network statusWorld ''https://site.com/news/123'' = Response 503 []
   \<and> processArticles statusWorld default_profile ''site.com''
        ([''https://other.org/news/1''] @ ''https://site.com/news/123''
           # [''https://site.com/story/3''])
      = [headlineItem, stormItem]
   \<and> processArticles statusWorld default_profile ''site.com'' [''https://other.org/news/1'']
      = [headlineItem]
   \<and> processArticles statusWorld default_profile ''site.com'' [''https://site.com/story/3'']
      = [stormItem]
   \<and> cappedLoop statusWorld default_profile
        ([''https://other.org/news/1''] @ ''https://site.com/news/123''
           # [''https://site.com/story/3''])
      = [cappedHeadline, cappedStorm]
   \<and> cappedLoop statusWorld default_profile [''https://other.org/news/1'']
      = [cappedHeadline]
   \<and> cappedLoop statusWorld default_profile [''https://site.com/story/3''] = [cappedStorm]
   \<and> network statusWorld ''https://site.com/news/203'' = Response 203 ''ARTICLE''
   \<and> cheerioLoad statusWorld ''ARTICLE'' = Some articleDoc
   \<and> firstMatchText articleDoc (titleSels default_profile) = ''Headline''
   \<and> cappedImage (resolveUrl statusWorld) ''https://site.com/news/203'' articleDoc
        (imageSels default_profile) = Inr (Some [])
   \<and> cappedLoop statusWorld default_profile
        ([''https://other.org/news/1''] @ ''https://site.com/news/203''
           # [''https://site.com/story/3''])
      = [cappedHeadline, cappedPartial, cappedStorm]
   \<and> network statusWorld ''https://site.com/'' = Response 200 ''LIST''
   \<and> cheerioLoad statusWorld ''LIST'' = Some listDoc
   \<and> selectorsFor ''site.com'' = ProfileObject default_profile
   \<and> scrapeList statusWorld ''https://site.com/'' ''site.com''
        = Inr (200, NewsBody [headlineItem, stormItem])"
proof -
  have f: "network statusWorld ''https://site.com/news/123'' = Response 503 []
      \<and> network statusWorld ''https://site.com/news/203'' = Response 203 ''ARTICLE''
      \<and> cheerioLoad statusWorld ''ARTICLE'' = Some articleDoc
      \<and> network statusWorld ''https://site.com/'' = Response 200 ''LIST''
      \<and> cheerioLoad statusWorld ''LIST'' = Some listDoc"
    by (simp add: status_world_eval)
  have g: "selectorsFor ''site.com'' = ProfileObject default_profile"
    by (simp add: selectorsFor_def websiteSelectors_def objectPrototypeKeys_def)
  have t: "firstMatchText articleDoc (titleSels default_profile) = ''Headline''
      \<and> cappedImage (resolveUrl statusWorld) ''https://site.com/news/203'' articleDoc
        (imageSels default_profile) = Inr (Some [])"
    by (simp add: articleDoc_def default_profile_def text_eval)
  have p: "processArticles statusWorld default_profile ''site.com''
             [''https://other.org/news/1''] = [headlineItem]
      \<and> processArticles statusWorld default_profile ''site.com''
             [''https://site.com/story/3''] = [stormItem]"
    by (simp add: headlineItem_def stormItem_def status_world_eval loop_eval text_eval
          image_doc_eval)
  have c: "cappedLoop statusWorld default_profile [''https://other.org/news/1'']
             = [cappedHeadline]
      \<and> cappedLoop statusWorld default_profile [''https://site.com/story/3'']
             = [cappedStorm]"
    by (simp add: cappedHeadline_def cappedStorm_def status_world_eval loop_eval text_eval
          image_doc_eval)
  have l: "articleLinks (discoverLinks (resolveUrl statusWorld) ''https://site.com/'' listDoc
             (articleSels default_profile))
            = [''https://other.org/news/1'', ''https://site.com/news/123'',
               ''https://site.com/story/3'']"
    by (simp add: discoverLinks_def selectorPass_def generalPass_def visitLink_def
          visitContainer_def setAdd_def attr_def toAbsolute_def article_eval
          listDoc_def default_profile_def siteResolver_def statusWorld_def demoWorld_def)
  have s: "scrapeList statusWorld ''https://site.com/'' ''site.com''
        = Inr (200, NewsBody [headlineItem, stormItem])"
    using f g l status_items by (simp add: scrapeList_replies)
  show ?thesis
    using f g t p c s status_items status_capped status_capped_203
      article_failure_is_skipped[where w = statusWorld
        and u = "''https://site.com/news/123''" and selectors = default_profile
        and hostname = "''site.com''" and before = "[''https://other.org/news/1'']"
        and after = "[''https://site.com/story/3'']"
        and v = "''https://site.com/news/203''" and status' = 203 and body' = "''ARTICLE''"
        and doc' = articleDoc and img = "Some []"
        and url = "''https://site.com/''" and body = "''LIST''" and doc = listDoc]
    by simp
qed

section \<open>Fields of the emitted records (C3)\<close>

lemma foldl_invariant:
  "P a \<Longrightarrow> (\<And>c x. P c \<Longrightarrow> P (f c x)) \<Longrightarrow> P (foldl f a xs)"
  by (induction xs arbitrary: a) simp_all





lemma processArticle_Some:
  assumes "processArticle w s h u = Inr (Some item)"
  shows "\<exists>body doc. network w u = Response 200 body \<and> cheerioLoad w body = Some doc \<and>
     extractTitle doc (titleSels s) \<noteq> [] \<and>
     item = \<lparr>item_title = extractTitle doc (titleSels s),
             item_author = (if extractAuthor doc (authorSels s) \<noteq> []
                            then extractAuthor doc (authorSels s) else ''Unknown''),
             item_date = (if formatDate (dateToISO w) (extractDate doc (dateSels s)) \<noteq> []
                          then formatDate (dateToISO w) (extractDate doc (dateSels s))
                          else clock w u),
             item_source = h, item_url = u,
             item_imageUrl = (if extractImage (resolveUrl w) u doc (imageSels s) \<noteq> []
                              then Some (extractImage (resolveUrl w) u doc (imageSels s))
                              else None)\<rparr>"
  using assms
  by (auto simp: processArticle_def axios_get_def Let_def
           split: sum.splits option.splits if_splits fetch_outcome.splits)




lemma demo_items:
  "processArticles demoWorld default_profile ''site.com'' demoLinks = [headlineItem, stormItem]"
  by (simp add: demoLinks_def headlineItem_def stormItem_def world_eval loop_eval text_eval image_doc_eval)


section \<open>The source label of a record (C10)\<close>

lemma errorReply_no_news: "errorReply e \<noteq> (code, NewsBody items)"
  by (cases e) simp_all

lemma scrape_news:
  assumes "scrape w url = (code, NewsBody items)"
  shows "\<exists>hostname selectors links. urlHostname w url = Some hostname \<and>
           items = processArticles w selectors hostname links"
proof -
  from assms obtain hostname where h: "urlHostname w url = Some hostname"
    and r: "(case scrapeList w url hostname of Inr r \<Rightarrow> r | Inl e \<Rightarrow> errorReply e)
              = (code, NewsBody items)"
    by (auto simp: scrape_def split: if_splits option.splits)
  from r have "scrapeList w url hostname = Inr (code, NewsBody items)"
    by (auto simp: errorReply_no_news split: sum.splits)
  then have "\<exists>selectors links. items = processArticles w selectors hostname links"
    by (fastforce simp: scrapeList_def Let_def
             split: sum.splits if_splits option.splits js_value.splits)
  with h show ?thesis by blast
qed

lemma processArticle_source:
  "processArticle w s h u = Inr (Some item) \<Longrightarrow> item_source item = h \<and> item_url item = u"
  by (auto dest: processArticle_Some)

lemma visitLink_adds:
  assumes "attr ''href'' link = Some href" "href \<noteq> []"
    "toAbsolute resolve url href = Some absoluteUrl" "looksLikeArticle absoluteUrl"
  shows "absoluteUrl \<in> set (articleLinks (visitLink resolve url st link))"
  using assms by (simp add: visitLink_def setAdd_def)

lemma demo_scrape:
  "scrape demoWorld ''https://site.com/'' = (200, NewsBody [headlineItem, stormItem])"
proof -
  have l: "articleLinks (discoverLinks siteResolver ''https://site.com/'' listDoc
             (articleSels default_profile)) = demoLinks"
    by (simp add: discoverLinks_def selectorPass_def generalPass_def visitLink_def
          visitContainer_def setAdd_def attr_def toAbsolute_def article_eval
          listDoc_def default_profile_def siteResolver_def demoLinks_def)
  have "scrapeList demoWorld ''https://site.com/'' ''site.com''
          = Inr (200, NewsBody [headlineItem, stormItem])"
    using l demo_items
    by (simp add: scrapeList_def axios_get_def validateStatus_def selectorsFor_def
          websiteSelectors_def objectPrototypeKeys_def demoWorld_def)
  then show ?thesis by (simp add: scrape_def demoWorld_def)
qed

text \<open>
  C10: every record of a successful reply carries as source the hostname of the
  submitted list-page URL. Link discovery has no same-host filter: an absolute link
  that passes the article test is added whatever its host, each link whose article is
  processed successfully yields a record with that link as URL and the list page's
  hostname as source, and there are replies in which a record's URL is on another host
  than the list page.
\<close>

theorem source_is_list_page_hostname:
  "(scrape w url = (code, NewsBody items) \<and> item \<in> set items
      \<longrightarrow> urlHostname w url = Some (item_source item))
   \<and> (attr ''href'' link = Some href \<and> startsWith ''http'' href \<and> looksLikeArticle href
      \<longrightarrow> href \<in> set (articleLinks (visitLink resolve url st link)))
   \<and> (articleUrl \<in> set links \<and> processArticle w selectors hostname articleUrl = Inr (Some item')
      \<longrightarrow> item' \<in> set (processArticles w selectors hostname links)
          \<and> item_source item' = hostname \<and> item_url item' = articleUrl)
   \<and> (\<exists>w url items item. scrape w url = (200, NewsBody items) \<and> item \<in> set items
          \<and> urlHostname w (item_url item) \<noteq> urlHostname w url)"
proof (intro conjI impI)
  assume a: "scrape w url = (code, NewsBody items) \<and> item \<in> set items"
  then obtain hostname selectors links where h: "urlHostname w url = Some hostname"
    and i: "items = processArticles w selectors hostname links"
    using scrape_news by blast
  from a i have "item_source item = hostname"
    by (auto simp: processArticles_member dest: processArticle_source)
  with h show "urlHostname w url = Some (item_source item)" by simp
next
  assume a: "attr ''href'' link = Some href \<and> startsWith ''http'' href \<and> looksLikeArticle href"
  then have "href \<noteq> []" by auto
  moreover from a have "toAbsolute resolve url href = Some href" by (simp add: toAbsolute_def)
  ultimately show "href \<in> set (articleLinks (visitLink resolve url st link))"
    using a visitLink_adds by blast
next
  assume a: "articleUrl \<in> set links \<and> processArticle w selectors hostname articleUrl = Inr (Some item')"
  then show "item' \<in> set (processArticles w selectors hostname links)"
    by (auto simp: processArticles_member)
  from a show "item_source item' = hostname" by (auto dest: processArticle_source)
  from a show "item_url item' = articleUrl" by (auto dest: processArticle_source)
next
  have "scrape demoWorld ''https://site.com/'' = (200, NewsBody [headlineItem, stormItem])
     \<and> headlineItem \<in> set [headlineItem, stormItem]
     \<and> urlHostname demoWorld (item_url headlineItem) \<noteq> urlHostname demoWorld ''https://site.com/''"
    using demo_scrape by (simp add: headlineItem_def demoWorld_def)
  then show "\<exists>w url items item. scrape w url = (200, NewsBody items) \<and> item \<in> set items
          \<and> urlHostname w (item_url item) \<noteq> urlHostname w url"
    by blast
qed

theorem source_is_list_page_hostname_witness:
  "scrape demoWorld ''https://site.com/'' = (200, NewsBody [headlineItem, stormItem])
   \<and> headlineItem \<in> set [headlineItem, stormItem]
   \<and> item_url headlineItem = ''https://other.org/news/1''
   \<and> urlHostname demoWorld (item_url headlineItem) = Some ''other.org''
   \<and> urlHostname demoWorld ''https://site.com/'' = Some (item_source headlineItem)
   \<and> attr ''href'' (Element ''One'' [(''href'', ''https://other.org/news/1'')] [])
        = Some ''https://other.org/news/1''
   \<and> startsWith ''http'' ''https://other.org/news/1''
   \<and> looksLikeArticle ''https://other.org/news/1''
   \<and> ''https://other.org/news/1'' \<in> set (articleLinks (visitLink siteResolver
         ''https://site.com/'' \<lparr>articleLinks = [], console = []\<rparr>
         (Element ''One'' [(''href'', ''https://other.org/news/1'')] [])))
   \<and> ''https://other.org/news/1'' \<in> set demoLinks
   \<and> processArticle demoWorld default_profile ''site.com'' ''https://other.org/news/1''
        = Inr (Some headlineItem)
   \<and> headlineItem \<in> set (processArticles demoWorld default_profile ''site.com'' demoLinks)"
proof -
  have p: "processArticle demoWorld default_profile ''site.com'' ''https://other.org/news/1''
        = Inr (Some headlineItem)"
    by (simp add: headlineItem_def world_eval loop_eval text_eval image_doc_eval)
  have a: "attr ''href'' (Element ''One'' [(''href'', ''https://other.org/news/1'')] [])
        = Some ''https://other.org/news/1''
     \<and> startsWith ''http'' ''https://other.org/news/1''
     \<and> looksLikeArticle ''https://other.org/news/1''
     \<and> ''https://other.org/news/1'' \<in> set demoLinks"
    by (simp add: attr_def looksLikeArticle_def demoLinks_def)
  have h: "item_url headlineItem = ''https://other.org/news/1''
     \<and> urlHostname demoWorld (item_url headlineItem) = Some ''other.org''"
    by (simp add: headlineItem_def demoWorld_def)
  show ?thesis
    using p a h demo_scrape
      source_is_list_page_hostname[where w = demoWorld and url = "''https://site.com/''"
        and code = 200 and items = "[headlineItem, stormItem]" and item = headlineItem
        and link = "Element ''One'' [(''href'', ''https://other.org/news/1'')] []"
        and href = "''https://other.org/news/1''" and resolve = siteResolver
        and st = "\<lparr>articleLinks = [], console = []\<rparr>"
        and articleUrl = "''https://other.org/news/1''" and links = demoLinks
        and selectors = default_profile and hostname = "''site.com''"
        and item' = headlineItem]
    by simp
qed

section \<open>Classification of the list-page fetch (C4)\<close>

lemma upstream_reply:
  assumes "url \<noteq> []" "urlHostname w url = Some h" "network w url = Response status body"
    "status \<noteq> 403" "status \<noteq> 200"
  shows "scrape w url = (status, ErrorBody
           ((if validateStatus status then ''Failed to fetch the website. Status code: ''
             else ''Server responded with status '') @ showNat status))"
  using assms by (simp add: scrape_def scrapeList_def axios_get_def)

text \<open>
  C4: a list-page response with status 403 yields the reply 403 with the forbidden
  message; any other status than 200 yields a reply with that status (and a message
  naming it), different from the replies of the other conditions; no response at all
  (a transport failure or timeout) yields 500 with the no-response message; and a
  request whose extraction produces no record yields the reply 404 with the
  no-articles message, not an exception.
\<close>

theorem list_fetch_classification:
  "(urlB \<noteq> [] \<and> urlHostname w urlB = Some hB \<and> network w urlB = Response 403 bodyB
      \<longrightarrow> scrape w urlB = (403, ErrorBody forbiddenMessage))
   \<and> (urlS \<noteq> [] \<and> urlHostname w urlS = Some hS \<and> network w urlS = Response status bodyS
        \<and> status \<noteq> 403 \<and> status \<noteq> 200
      \<longrightarrow> scrape w urlS = (status, ErrorBody
             ((if validateStatus status then ''Failed to fetch the website. Status code: ''
               else ''Server responded with status '') @ showNat status))
          \<and> scrape w urlS \<noteq> (403, ErrorBody forbiddenMessage)
          \<and> scrape w urlS \<noteq> (500, ErrorBody noResponseMessage)
          \<and> scrape w urlS \<noteq> (404, ErrorBody noArticlesMessage))
   \<and> (urlN \<noteq> [] \<and> urlHostname w urlN = Some hN \<and> network w urlN = NoResponse
      \<longrightarrow> scrape w urlN = (500, ErrorBody noResponseMessage))
   \<and> (urlE \<noteq> [] \<and> urlHostname w urlE = Some hE \<and> network w urlE = Response 200 bodyE
        \<and> cheerioLoad w bodyE = Some doc \<and> selectorsFor hE = ProfileObject selectors
        \<and> processArticles w selectors hE
             (articleLinks (discoverLinks (resolveUrl w) urlE doc (articleSels selectors))) = []
      \<longrightarrow> scrape w urlE = (404, ErrorBody noArticlesMessage))
   \<and> noResponseMessage \<noteq> noArticlesMessage"
proof (intro conjI impI)
  assume "urlB \<noteq> [] \<and> urlHostname w urlB = Some hB \<and> network w urlB = Response 403 bodyB"
  then show "scrape w urlB = (403, ErrorBody forbiddenMessage)"
    by (simp add: scrape_def scrapeList_def axios_get_def validateStatus_def)
next
  assume a: "urlS \<noteq> [] \<and> urlHostname w urlS = Some hS \<and> network w urlS = Response status bodyS
        \<and> status \<noteq> 403 \<and> status \<noteq> 200"
  then have r: "scrape w urlS = (status, ErrorBody
             ((if validateStatus status then ''Failed to fetch the website. Status code: ''
               else ''Server responded with status '') @ showNat status))"
    using upstream_reply by blast
  then show "scrape w urlS = (status, ErrorBody
             ((if validateStatus status then ''Failed to fetch the website. Status code: ''
               else ''Server responded with status '') @ showNat status))" .
  from r a show "scrape w urlS \<noteq> (403, ErrorBody forbiddenMessage)" by simp
  from r show "scrape w urlS \<noteq> (500, ErrorBody noResponseMessage)"
    by (simp add: noResponseMessage_def)
  from r show "scrape w urlS \<noteq> (404, ErrorBody noArticlesMessage)"
    by (simp add: noArticlesMessage_def)
next
  assume "urlN \<noteq> [] \<and> urlHostname w urlN = Some hN \<and> network w urlN = NoResponse"
  then show "scrape w urlN = (500, ErrorBody noResponseMessage)"
    by (simp add: scrape_def scrapeList_def axios_get_def)
next
  assume a: "urlE \<noteq> [] \<and> urlHostname w urlE = Some hE \<and> network w urlE = Response 200 bodyE
        \<and> cheerioLoad w bodyE = Some doc \<and> selectorsFor hE = ProfileObject selectors
        \<and> processArticles w selectors hE
             (articleLinks (discoverLinks (resolveUrl w) urlE doc (articleSels selectors))) = []"
  then have "scrapeList w urlE hE = Inr (404, ErrorBody noArticlesMessage)"
    by (simp add: scrapeList_replies)
  with a show "scrape w urlE = (404, ErrorBody noArticlesMessage)"
    by (simp add: scrape_def)
next
  show "noResponseMessage \<noteq> noArticlesMessage"
    by (simp add: noResponseMessage_def noArticlesMessage_def)
qed

theorem list_fetch_classification_witness:
  "network demoWorld ''https://site.com/blocked'' = Response 403 []
   \<and> scrape demoWorld ''https://site.com/blocked'' = (403, ErrorBody forbiddenMessage)
   \<and> network demoWorld ''https://site.com/missing'' = Response 404 []
   \<and> scrape demoWorld ''https://site.com/missing''
        = (404, ErrorBody ''Failed to fetch the website. Status code: 404'')
   \<and> network demoWorld ''https://site.com/down'' = NoResponse
   \<and> scrape demoWorld ''https://site.com/down'' = (500, ErrorBody noResponseMessage)
   \<and> network demoWorld ''https://site.com/empty'' = Response 200 ''EMPTY''
   \<and> scrape demoWorld ''https://site.com/empty'' = (404, ErrorBody noArticlesMessage)"
proof -
  have n: "network demoWorld ''https://site.com/blocked'' = Response 403 []
     \<and> network demoWorld ''https://site.com/missing'' = Response 404 []
     \<and> network demoWorld ''https://site.com/down'' = NoResponse
     \<and> network demoWorld ''https://site.com/empty'' = Response 200 ''EMPTY''
     \<and> cheerioLoad demoWorld ''EMPTY'' = Some (\<lambda>selector. [])
     \<and> urlHostname demoWorld ''https://site.com/blocked'' = Some ''site.com''
     \<and> urlHostname demoWorld ''https://site.com/missing'' = Some ''site.com''
     \<and> urlHostname demoWorld ''https://site.com/down'' = Some ''site.com''
     \<and> urlHostname demoWorld ''https://site.com/empty'' = Some ''site.com''"
    by (simp add: demoWorld_def)
  have s: "selectorsFor ''site.com'' = ProfileObject default_profile"
    by (simp add: selectorsFor_def websiteSelectors_def objectPrototypeKeys_def)
  have e: "processArticles demoWorld default_profile ''site.com''
             (articleLinks (discoverLinks (resolveUrl demoWorld) ''https://site.com/empty''
                (\<lambda>selector. []) (articleSels default_profile))) = []"
    by (simp add: discoverLinks_def selectorPass_def generalPass_def processArticles_def
          default_profile_def)
  have d: "showNat 404 = ''404''" by (simp add: showNat.simps digitChar_def)
  show ?thesis
    using n s e d
      list_fetch_classification[where w = demoWorld and urlB = "''https://site.com/blocked''"
        and hB = "''site.com''" and bodyB = "[]" and urlS = "''https://site.com/missing''"
        and hS = "''site.com''" and status = 404 and bodyS = "[]"
        and urlN = "''https://site.com/down''" and hN = "''site.com''"
        and urlE = "''https://site.com/empty''" and hE = "''site.com''" and bodyE = "''EMPTY''"
        and doc = "\<lambda>selector. []" and selectors = default_profile]
    by (simp add: validateStatus_def)
qed

section \<open>Profile lookup (C9)\<close>

text \<open>
  C9 states that the lookup returns a profile for every hostname: the entry of the
  registry, or the default. The property read of the source also finds the members
  inherited from \<open>Object.prototype\<close>. For the hostname \<open>constructor\<close> the lookup yields
  the inherited constructor function, not the default profile, and the request ends
  in the last-resort reply 500.
\<close>

theorem inherited_key_is_not_a_profile:
  "urlHostname demoWorld ''http://constructor/'' = Some ''constructor''
   \<and> network demoWorld ''http://constructor/'' = Response 200 ''LIST''
   \<and> websiteSelectors ''constructor'' = PrototypeMember ''constructor''
   \<and> selectorsFor ''constructor'' = PrototypeMember ''constructor''
   \<and> selectorsFor ''constructor'' \<noteq> ProfileObject default_profile
   \<and> scrape demoWorld ''http://constructor/'' = (500, ErrorBody setupErrorMessage)"
  by (simp add: selectorsFor_def websiteSelectors_def objectPrototypeKeys_def
        scrape_def scrapeList_def axios_get_def validateStatus_def demoWorld_def)

text \<open>For every hostname that is not such an inherited key, the lookup does what C9 says.\<close>

lemma selectorsFor_own_or_default:
  "hostname \<notin> set objectPrototypeKeys \<Longrightarrow>
   selectorsFor hostname =
     ProfileObject (if hostname = ''abs-cbn.com'' then abs_cbn_profile else default_profile)"
  by (simp add: selectorsFor_def websiteSelectors_def)

section \<open>The general anchor scan (C6)\<close>

lemma visitLink_console:
  "TryingGeneralApproach \<in> set (console (visitLink r url st l)) \<longleftrightarrow>
   TryingGeneralApproach \<in> set (console st)"
  by (auto simp: visitLink_def split: option.splits)

lemma visitLink_mono:
  "a \<in> set (articleLinks st) \<Longrightarrow> a \<in> set (articleLinks (visitLink r url st l))"
  by (auto simp: visitLink_def setAdd_def split: option.splits)

lemma foldl_visitLink_console:
  "TryingGeneralApproach \<in> set (console (foldl (visitLink r url) st ls)) \<longleftrightarrow>
   TryingGeneralApproach \<in> set (console st)"
  by (induction ls arbitrary: st) (simp_all add: visitLink_console)

lemma foldl_visitLink_mono:
  "a \<in> set (articleLinks st) \<Longrightarrow> a \<in> set (articleLinks (foldl (visitLink r url) st ls))"
  by (induction ls arbitrary: st) (simp_all add: visitLink_mono)

lemma foldl_visitLink_adds:
  assumes "link \<in> set ls" and "\<And>st. a \<in> set (articleLinks (visitLink r url st link))"
  shows "a \<in> set (articleLinks (foldl (visitLink r url) st ls))"
  using assms(1)
proof (induction ls arbitrary: st)
  case Nil
  then show ?case by simp
next
  case (Cons l ls)
  show ?case
  proof (cases "l = link")
    case True
    then show ?thesis using assms(2)[of st] by (simp add: foldl_visitLink_mono)
  next
    case False
    with Cons show ?thesis by simp
  qed
qed

lemma selectorPass_console:
  "TryingGeneralApproach \<notin> set (console (selectorPass r url doc sels))"
  unfolding selectorPass_def
proof (rule foldl_invariant)
  show "TryingGeneralApproach \<notin> set (console \<lparr>articleLinks = [], console = []\<rparr>)" by simp
next
  fix c :: discovery and x
  assume c: "TryingGeneralApproach \<notin> set (console c)"
  show "TryingGeneralApproach \<notin> set (console (foldl (visitContainer r url) c (doc x)))"
  proof (rule foldl_invariant)
    show "TryingGeneralApproach \<notin> set (console c)" by (rule c)
  next
    fix c' :: discovery and el
    assume "TryingGeneralApproach \<notin> set (console c')"
    then show "TryingGeneralApproach \<notin> set (console (visitContainer r url c' el))"
      by (simp add: visitContainer_def foldl_visitLink_console)
  qed
qed

lemma selectorPass_nothing_matches:
  assumes "\<forall>s\<in>set sels. doc s = []"
  shows "selectorPass r url doc sels = \<lparr>articleLinks = [], console = []\<rparr>"
  unfolding selectorPass_def using assms by (intro foldl_keep) simp

lemma includes_news:
  "includesStr ''/news/123'' u \<Longrightarrow> includesStr ''/news/'' u"
proof -
  assume "includesStr ''/news/123'' u"
  then obtain p q where "u = p @ ''/news/123'' @ q" by (auto simp: includes_iff)
  then have "u = p @ ''/news/'' @ (''123'' @ q)" by simp
  then show ?thesis unfolding includes_iff by blast
qed

lemma includes_nonempty: "includesStr (c # n) u \<Longrightarrow> u \<noteq> []"
  by (cases u) auto

text \<open>
  C6: link discovery runs the whole-document anchor scan (and prints its console line)
  if and only if the selector-driven pass left the candidate set empty; otherwise the
  result is that of the selector pass. When no article-container selector matches
  anything and the page has an anchor whose href contains \<open>/news/123\<close>, the absolute
  link of that anchor (the href itself when it begins with \<open>http\<close>, else what the
  resolver returns, still containing \<open>/news/123\<close>) is in the candidate set.
\<close>

theorem general_scan_iff_selector_pass_empty:
  "(TryingGeneralApproach \<in> set (console (discoverLinks resolve url doc sels))
      \<longleftrightarrow> articleLinks (selectorPass resolve url doc sels) = [])
   \<and> (articleLinks (selectorPass resolve url doc sels) \<noteq> []
      \<longrightarrow> discoverLinks resolve url doc sels = selectorPass resolve url doc sels)
   \<and> (articleLinks (selectorPass resolve url doc sels) = []
      \<longrightarrow> discoverLinks resolve url doc sels
          = generalPass resolve url doc (selectorPass resolve url doc sels))
   \<and> ((\<forall>s\<in>set sels. doc s = []) \<and> link \<in> set (doc ''a'')
       \<and> attr ''href'' link = Some href \<and> includesStr ''/news/123'' href
       \<and> toAbsolute resolve url href = Some absoluteUrl
       \<and> includesStr ''/news/123'' absoluteUrl
      \<longrightarrow> absoluteUrl \<in> set (articleLinks (discoverLinks resolve url doc sels)))"
proof (intro conjI impI)
  show "TryingGeneralApproach \<in> set (console (discoverLinks resolve url doc sels))
      \<longleftrightarrow> articleLinks (selectorPass resolve url doc sels) = []"
    using selectorPass_console[of resolve url doc sels]
    by (simp add: discoverLinks_def Let_def generalPass_def foldl_visitLink_console)
next
  assume "articleLinks (selectorPass resolve url doc sels) \<noteq> []"
  then show "discoverLinks resolve url doc sels = selectorPass resolve url doc sels"
    by (simp add: discoverLinks_def Let_def)
next
  assume "articleLinks (selectorPass resolve url doc sels) = []"
  then show "discoverLinks resolve url doc sels
          = generalPass resolve url doc (selectorPass resolve url doc sels)"
    by (simp add: discoverLinks_def Let_def)
next
  assume a: "(\<forall>s\<in>set sels. doc s = []) \<and> link \<in> set (doc ''a'')
       \<and> attr ''href'' link = Some href \<and> includesStr ''/news/123'' href
       \<and> toAbsolute resolve url href = Some absoluteUrl
       \<and> includesStr ''/news/123'' absoluteUrl"
  then have sp: "selectorPass resolve url doc sels = \<lparr>articleLinks = [], console = []\<rparr>"
    by (simp add: selectorPass_nothing_matches)
  from a have ne: "href \<noteq> []" using includes_nonempty by blast
  from a have "looksLikeArticle absoluteUrl"
    by (simp add: looksLikeArticle_def includes_news)
  with a ne have "\<And>st. absoluteUrl \<in> set (articleLinks (visitLink resolve url st link))"
    using visitLink_adds[of link href resolve url absoluteUrl] by blast
  with a have "absoluteUrl \<in> set (articleLinks (generalPass resolve url doc
                  (selectorPass resolve url doc sels)))"
    unfolding generalPass_def
    using foldl_visitLink_adds[of link "doc ''a''" absoluteUrl resolve url] by blast
  with sp show "absoluteUrl \<in> set (articleLinks (discoverLinks resolve url doc sels))"
    by (simp add: discoverLinks_def Let_def)
qed

theorem general_scan_iff_selector_pass_empty_witness:
  "articleLinks (selectorPass siteResolver ''https://site.com/'' listDoc
       (articleSels default_profile)) = []
   \<and> TryingGeneralApproach \<in> set (console (discoverLinks siteResolver ''https://site.com/''
       listDoc (articleSels default_profile)))
   \<and> Element ''Two'' [(''href'', ''/news/123'')] [] \<in> set (listDoc ''a'')
   \<and> attr ''href'' (Element ''Two'' [(''href'', ''/news/123'')] []) = Some ''/news/123''
   \<and> includesStr ''/news/123'' ''/news/123''
   \<and> toAbsolute siteResolver ''https://site.com/'' ''/news/123''
        = Some ''https://site.com/news/123''
   \<and> includesStr ''/news/123'' ''https://site.com/news/123''
   \<and> ''https://site.com/news/123'' \<in> set (articleLinks (discoverLinks siteResolver
        ''https://site.com/'' listDoc (articleSels default_profile)))"
proof -
  have m: "\<forall>s\<in>set (articleSels default_profile). listDoc s = []"
    by (simp add: default_profile_def listDoc_def)
  then have e: "articleLinks (selectorPass siteResolver ''https://site.com/'' listDoc
       (articleSels default_profile)) = []"
    by (simp add: selectorPass_nothing_matches)
  have h: "Element ''Two'' [(''href'', ''/news/123'')] [] \<in> set (listDoc ''a'')
     \<and> attr ''href'' (Element ''Two'' [(''href'', ''/news/123'')] []) = Some ''/news/123''
     \<and> includesStr ''/news/123'' ''/news/123''
     \<and> toAbsolute siteResolver ''https://site.com/'' ''/news/123''
          = Some ''https://site.com/news/123''
     \<and> includesStr ''/news/123'' ''https://site.com/news/123''"
    by (simp add: listDoc_def attr_def toAbsolute_def siteResolver_def)
  show ?thesis
    using m e h
      general_scan_iff_selector_pass_empty[where resolve = siteResolver
        and url = "''https://site.com/''" and doc = listDoc
        and sels = "articleSels default_profile"
        and link = "Element ''Two'' [(''href'', ''/news/123'')] []"
        and href = "''/news/123''" and absoluteUrl = "''https://site.com/news/123''"]
    by blast
qed

end
